theory Spec2Isabelle
  imports Main "HOL-Library.Word"
begin

unbundle bit_operations_syntax

section \<open>Configuration constants (src/src/config/config.h)\<close>

definition MEMORY_ALIGNMENT :: "32 word" where
  "MEMORY_ALIGNMENT = 4"

definition MAX_MEMORY_BLOCKS :: nat where
  "MAX_MEMORY_BLOCKS = 64"

definition MAX_TASKS :: nat where
  "MAX_TASKS = 16"

section \<open>C strings and character buffers\<close>

text \<open>
  The target is the ESP32: pointers, \<open>size_t\<close>, \<open>uint32_t\<close>, \<open>UBaseType_t\<close> and the
  FreeRTOS handles are 32-bit values (\<open>32 word\<close>); the null pointer is \<open>0\<close>.

  A \<open>char\<close> array is the list of its bytes. A \<open>const char*\<close> argument is the list of
  the bytes it points to; the C library reads it up to the first NUL byte, and the end of the
  list stands for the terminator when there is none before it.
\<close>

definition NUL :: char where
  "NUL = CHR 0x00"

definition cstr :: "string \<Rightarrow> string" where
  "cstr bytes = takeWhile (\<lambda>c. c \<noteq> NUL) bytes"

text \<open>\<open>strncpy(dst, src, n)\<close>: copies at most \<open>n\<close> characters of the string \<open>src\<close> and pads
  with NUL up to \<open>n\<close> bytes; the bytes of \<open>dst\<close> from index \<open>n\<close> on are not written.\<close>

definition strncpy :: "string \<Rightarrow> string \<Rightarrow> nat \<Rightarrow> string" where
  "strncpy dst src n =
     (let s = take n (cstr src)
      in s @ replicate (n - length s) NUL @ drop n dst)"

text \<open>\<open>strcmp(a, b) == 0\<close>.\<close>

definition strcmp_is_0 :: "string \<Rightarrow> string \<Rightarrow> bool" where
  "strcmp_is_0 a b = (cstr a = cstr b)"

text \<open>\<open>memset(buf, 0, n)\<close> on a buffer of \<open>n\<close> bytes.\<close>

definition memset_0 :: "nat \<Rightarrow> string" where
  "memset_0 n = replicate n NUL"

section \<open>The external collaborators\<close>

text \<open>
  The heap allocator, FreeRTOS, the clock and the serial port are not part of the repository.
  Every modelled function returns the list of the external calls it makes, in order, and takes
  the answers of the outside world as an argument of type \<open>env\<close>.
\<close>

datatype serial_arg = Str string | Dec nat | Hex "32 word"

datatype ext_call =
    SemCreateMutex
  | SemTake "32 word" nat
  | SemGive "32 word"
  | Malloc "32 word"
  | HeapFree "32 word"
  | Memcpy "32 word" "32 word" "32 word"
  | Millis
  | TaskCreate "32 word" string "32 word" "32 word" "32 word"
  | TaskDelete "32 word"
  | TaskSuspend "32 word"
  | TaskResume "32 word"
  | SerialPrint serial_arg
  | SerialPrintln serial_arg

text \<open>
  \<^item> \<open>semTake e h\<close>: \<open>xSemaphoreTake(h, 1000) == pdTRUE\<close>, the lock \<open>h\<close> was acquired within
    the timeout;
  \<^item> \<open>malloc_ret e\<close>: the pointer returned by \<open>malloc\<close> (\<open>0\<close> when it fails);
  \<^item> \<open>millis_ret e\<close>: the value of \<open>millis()\<close>;
  \<^item> \<open>xTaskCreate_ret e\<close>: \<open>Some h\<close> when \<open>xTaskCreate\<close> returns \<open>pdPASS\<close> and writes the
    handle \<open>h\<close>, \<open>None\<close> when it fails (the handle is then not written);
  \<^item> \<open>sizeof_StackType_t e\<close>: the constant \<open>sizeof(StackType_t)\<close> of the FreeRTOS port.
\<close>

record env =
  semTake :: "32 word \<Rightarrow> bool"
  malloc_ret :: "32 word"
  millis_ret :: "32 word"
  xTaskCreate_ret :: "32 word option"
  sizeof_StackType_t :: "32 word"

section \<open>Memory manager (src/kernel/memory.h, src/kernel/memory.cpp)\<close>

record MemoryBlock =
  ptr :: "32 word"
  size_bytes :: "32 word"
  allocated :: bool
  timestamp :: "32 word"
  tag :: string

text \<open>The array \<open>blocks[MAX_MEMORY_BLOCKS]\<close> is the function from its indices to its
  elements; the code reads and writes the indices below \<open>MAX_MEMORY_BLOCKS\<close> only.\<close>

record MemoryManager =
  blocks :: "nat \<Rightarrow> MemoryBlock"
  memoryMutex :: "32 word"
  totalAllocated :: "32 word"
  peakAllocated :: "32 word"
  allocationCount :: "32 word"
  freeCount :: "32 word"

definition cleared_block :: MemoryBlock where
  "cleared_block =
     \<lparr>ptr = 0, size_bytes = 0, allocated = False, timestamp = 0, tag = memset_0 16\<rparr>"

definition MemoryManager_ctor :: MemoryManager where
  "MemoryManager_ctor =
     \<lparr>blocks = (\<lambda>i. cleared_block), memoryMutex = 0, totalAllocated = 0,
      peakAllocated = 0, allocationCount = 0, freeCount = 0\<rparr>"

text \<open>\<open>init\<close>; the argument is the handle returned by \<open>xSemaphoreCreateMutex\<close>.\<close>

definition MemoryManager_init ::
  "32 word \<Rightarrow> MemoryManager \<Rightarrow> bool \<times> MemoryManager \<times> ext_call list" where
  "MemoryManager_init created m =
     (let m1 = m\<lparr>memoryMutex := created\<rparr>
      in if created = 0
         then (False, m1,
               [SemCreateMutex, SerialPrintln (Str ''MemoryManager: Failed to create mutex'')])
         else (True, m1,
               [SemCreateMutex, SerialPrintln (Str ''MemoryManager: Memory manager initialized'')]))"

function findFreeBlock_from :: "MemoryManager \<Rightarrow> nat \<Rightarrow> int" where
  "findFreeBlock_from m i =
     (if i < MAX_MEMORY_BLOCKS
      then (if \<not> allocated (blocks m i) then int i else findFreeBlock_from m (i + 1))
      else - 1)"
  by pat_completeness auto
termination
  by (relation "measure (\<lambda>(m, i). MAX_MEMORY_BLOCKS - i)") auto

declare findFreeBlock_from.simps [simp del]

definition findFreeBlock :: "MemoryManager \<Rightarrow> int" where
  "findFreeBlock m = findFreeBlock_from m 0"

function findBlockByPtr_from :: "MemoryManager \<Rightarrow> 32 word \<Rightarrow> nat \<Rightarrow> int" where
  "findBlockByPtr_from m p i =
     (if i < MAX_MEMORY_BLOCKS
      then (if allocated (blocks m i) \<and> ptr (blocks m i) = p then int i
            else findBlockByPtr_from m p (i + 1))
      else - 1)"
  by pat_completeness auto
termination
  by (relation "measure (\<lambda>(m, p, i). MAX_MEMORY_BLOCKS - i)") auto

declare findBlockByPtr_from.simps [simp del]

definition findBlockByPtr :: "MemoryManager \<Rightarrow> 32 word \<Rightarrow> int" where
  "findBlockByPtr m p = findBlockByPtr_from m p 0"

text \<open>\<open>size = (size + MEMORY_ALIGNMENT - 1) & ~(MEMORY_ALIGNMENT - 1)\<close> on \<open>size_t\<close>.\<close>

definition align_size :: "32 word \<Rightarrow> 32 word" where
  "align_size sz = (sz + MEMORY_ALIGNMENT - 1) AND NOT (MEMORY_ALIGNMENT - 1)"

text \<open>\<open>allocate(size, tag)\<close>; \<open>tag\<close> is \<open>None\<close> for a null pointer. \<open>DEBUG_MEMORY\<close> is 1
  (config.h), so the debug output is compiled in.\<close>

definition MemoryManager_allocate ::
  "32 word \<Rightarrow> string option \<Rightarrow> MemoryManager \<Rightarrow> env
     \<Rightarrow> 32 word \<times> MemoryManager \<times> ext_call list" where
  "MemoryManager_allocate sz tg m e =
     (if sz = 0 \<or> memoryMutex m = 0 then (0, m, [])
      else
        let sz' = align_size sz;
            mtx = memoryMutex m
        in if \<not> semTake e mtx then (0, m, [SemTake mtx 1000])
           else
             let slot = findFreeBlock m
             in if slot < 0
                then (0, m,
                      [SemTake mtx 1000, SemGive mtx,
                       SerialPrintln (Str ''MemoryManager: No free block slots available'')])
                else
                  let p = malloc_ret e
                  in if p = 0
                     then (0, m,
                           [SemTake mtx 1000, Malloc sz', SemGive mtx,
                            SerialPrint (Str ''MemoryManager: Failed to allocate ''),
                            SerialPrint (Dec (unat sz')),
                            SerialPrintln (Str '' bytes'')])
                     else
                       let tg' = (case tg of None \<Rightarrow> ''unknown'' | Some t \<Rightarrow> t);
                           old = blocks m (nat slot);
                           b = old\<lparr>ptr := p, size_bytes := sz', allocated := True,
                                   timestamp := millis_ret e,
                                   tag := strncpy (tag old) tg' 15\<rparr>;
                           total = totalAllocated m + sz';
                           m' = m\<lparr>blocks := (blocks m)(nat slot := b),
                                  totalAllocated := total,
                                  allocationCount := allocationCount m + 1,
                                  peakAllocated :=
                                    (if total > peakAllocated m then total
                                     else peakAllocated m)\<rparr>
                       in (p, m',
                           [SemTake mtx 1000, Malloc sz', Millis, SemGive mtx,
                            SerialPrint (Str ''MemoryManager: Allocated ''),
                            SerialPrint (Dec (unat sz')),
                            SerialPrint (Str '' bytes at 0x''),
                            SerialPrint (Hex p),
                            SerialPrint (Str '' (tag: ''),
                            SerialPrint (Str (cstr tg')),
                            SerialPrintln (Str '')'')]))"

text \<open>\<open>free(ptr)\<close>.\<close>

definition MemoryManager_free ::
  "32 word \<Rightarrow> MemoryManager \<Rightarrow> env \<Rightarrow> MemoryManager \<times> ext_call list" where
  "MemoryManager_free p m e =
     (if p = 0 \<or> memoryMutex m = 0 then (m, [])
      else
        let mtx = memoryMutex m
        in if \<not> semTake e mtx then (m, [SemTake mtx 1000])
           else
             let slot = findBlockByPtr m p
             in if slot < 0
                then (m,
                      [SemTake mtx 1000, SemGive mtx,
                       SerialPrint (Str ''MemoryManager: Attempted to free untracked pointer 0x''),
                       SerialPrintln (Hex p)])
                else
                  let b = blocks m (nat slot);
                      m' = m\<lparr>totalAllocated := totalAllocated m - size_bytes b,
                             freeCount := freeCount m + 1,
                             blocks := (blocks m)(nat slot := cleared_block)\<rparr>
                  in (m',
                      [SemTake mtx 1000, HeapFree p,
                       SerialPrint (Str ''MemoryManager: Freed ''),
                       SerialPrint (Dec (unat (size_bytes b))),
                       SerialPrint (Str '' bytes at 0x''),
                       SerialPrint (Hex p),
                       SerialPrint (Str '' (tag: ''),
                       SerialPrint (Str (cstr (tag b))),
                       SerialPrintln (Str '')''),
                       SemGive mtx]))"

text \<open>
  \<open>reallocate(ptr, newSize)\<close>. The general branch takes the lock three times (its own lookup,
  then inside \<open>allocate\<close>, then inside \<open>free\<close>), so it takes three answers of the outside
  world: \<open>e_find\<close>, \<open>e_alloc\<close> and \<open>e_free\<close>. Unlike \<open>allocate\<close> and \<open>free\<close> it does not
  test \<open>memoryMutex\<close> before \<open>xSemaphoreTake\<close>: with a null handle the call faults.
  The local \<open>char tag[16]\<close> is written in full by \<open>strncpy(tag, ..., sizeof(tag))\<close>, so its
  content before the copy does not matter.
\<close>

datatype fault = NullSemaphoreHandle

definition MemoryManager_reallocate ::
  "32 word \<Rightarrow> 32 word \<Rightarrow> MemoryManager \<Rightarrow> env \<Rightarrow> env \<Rightarrow> env
     \<Rightarrow> fault + (32 word \<times> MemoryManager \<times> ext_call list)" where
  "MemoryManager_reallocate p newSize m e_find e_alloc e_free =
     (if newSize = 0
      then (let (m1, c1) = MemoryManager_free p m e_free in Inr (0, m1, c1))
      else if p = 0
      then Inr (MemoryManager_allocate newSize (Some ''unknown'') m e_alloc)
      else if memoryMutex m = 0 then Inl NullSemaphoreHandle
      else
        let mtx = memoryMutex m
        in if \<not> semTake e_find mtx then Inr (0, m, [SemTake mtx 1000])
           else
             let slot = findBlockByPtr m p
             in if slot < 0 then Inr (0, m, [SemTake mtx 1000, SemGive mtx])
                else
                  let oldSize = size_bytes (blocks m (nat slot));
                      tag_local = strncpy (memset_0 16) (tag (blocks m (nat slot))) 16;
                      c0 = [SemTake mtx 1000, SemGive mtx];
                      (newPtr, m1, c1) = MemoryManager_allocate newSize (Some tag_local) m e_alloc
                  in if newPtr = 0 then Inr (0, m1, c0 @ c1)
                     else
                       let n = (if oldSize < newSize then oldSize else newSize);
                           (m2, c2) = MemoryManager_free p m1 e_free
                       in Inr (newPtr, m2, c0 @ c1 @ [Memcpy newPtr p n] @ c2))"

text \<open>A manager after \<open>init\<close>; \<open>created\<close> is the handle of its mutex.\<close>

definition initial_manager :: "32 word \<Rightarrow> MemoryManager" where
  "initial_manager created = fst (snd (MemoryManager_init created MemoryManager_ctor))"

text \<open>A sequence of \<open>allocate\<close> and \<open>free\<close> calls, each with the answers it gets.\<close>

datatype mem_call =
    Allocate "32 word" "string option" env
  | Free "32 word" env

fun mem_step :: "mem_call \<Rightarrow> MemoryManager \<Rightarrow> MemoryManager" where
  "mem_step (Allocate sz tg e) m = fst (snd (MemoryManager_allocate sz tg m e))"
| "mem_step (Free p e) m = fst (MemoryManager_free p m e)"

fun mem_run :: "mem_call list \<Rightarrow> MemoryManager \<Rightarrow> MemoryManager" where
  "mem_run [] m = m"
| "mem_run (c # cs) m = mem_run cs (mem_step c m)"

text \<open>The bytes of the live records, as a natural number (no wrap-around).\<close>

definition block_bytes :: "MemoryBlock \<Rightarrow> nat" where
  "block_bytes b = (if allocated b then unat (size_bytes b) else 0)"

definition live_bytes :: "MemoryManager \<Rightarrow> nat" where
  "live_bytes m = (\<Sum>i < MAX_MEMORY_BLOCKS. block_bytes (blocks m i))"

text \<open>
  The live blocks are disjoint regions of one 32-bit address space, so their sizes add up to
  less than \<open>2 ^ 32\<close>. \<open>heap_fits cs m\<close> says so for every state of the run of \<open>cs\<close> from
  \<open>m\<close>: it is a statement about what the external allocator hands out.
\<close>

fun heap_fits :: "mem_call list \<Rightarrow> MemoryManager \<Rightarrow> bool" where
  "heap_fits [] m = (live_bytes m < 2 ^ 32)"
| "heap_fits (c # cs) m = (live_bytes m < 2 ^ 32 \<and> heap_fits cs (mem_step c m))"

text \<open>The accounting invariant: the counter is the sum of the live sizes, in the counter's
  32-bit arithmetic.\<close>

definition total_is_sum :: "MemoryManager \<Rightarrow> bool" where
  "total_is_sum m = (totalAllocated m = of_nat (live_bytes m))"

section \<open>Task scheduler (src/src/kernel/scheduler.h, src/src/kernel/scheduler.cpp)\<close>

datatype eTaskState = eRunning | eReady | eBlocked | eSuspended | eDeleted | eInvalid

record TaskInfo =
  name :: string
  handle :: "32 word"
  stackSize :: "32 word"
  priority :: "32 word"
  state :: eTaskState
  stackHighWaterMark :: "32 word"
  active :: bool

record Scheduler =
  tasks :: "nat \<Rightarrow> TaskInfo"
  taskCount :: "16 word"
  schedulerMutex :: "32 word"

text \<open>The constructor writes \<open>active\<close>, \<open>handle\<close> and \<open>name\<close> of every slot and leaves the
  other fields of \<open>tasks\<close> as they were in memory: \<open>uninit\<close> is that memory.\<close>

definition Scheduler_ctor :: "(nat \<Rightarrow> TaskInfo) \<Rightarrow> Scheduler" where
  "Scheduler_ctor uninit =
     \<lparr>tasks = (\<lambda>i. (uninit i)\<lparr>active := False, handle := 0, name := memset_0 32\<rparr>),
      taskCount = 0, schedulerMutex = 0\<rparr>"

definition Scheduler_init ::
  "32 word \<Rightarrow> Scheduler \<Rightarrow> bool \<times> Scheduler \<times> ext_call list" where
  "Scheduler_init created s =
     (let s1 = s\<lparr>schedulerMutex := created\<rparr>
      in if created = 0
         then (False, s1,
               [SemCreateMutex, SerialPrintln (Str ''Scheduler: Failed to create mutex'')])
         else (True, s1,
               [SemCreateMutex, SerialPrintln (Str ''Scheduler: Task scheduler initialized'')]))"

function findTaskByName_from :: "Scheduler \<Rightarrow> string \<Rightarrow> nat \<Rightarrow> int" where
  "findTaskByName_from s nm i =
     (if i < MAX_TASKS
      then (if active (tasks s i) \<and> strcmp_is_0 (name (tasks s i)) nm then int i
            else findTaskByName_from s nm (i + 1))
      else - 1)"
  by pat_completeness auto
termination
  by (relation "measure (\<lambda>(s, nm, i). MAX_TASKS - i)") auto

declare findTaskByName_from.simps [simp del]

definition findTaskByName :: "Scheduler \<Rightarrow> string \<Rightarrow> int" where
  "findTaskByName s nm = findTaskByName_from s nm 0"

function findFreeTaskSlot_from :: "Scheduler \<Rightarrow> nat \<Rightarrow> int" where
  "findFreeTaskSlot_from s i =
     (if i < MAX_TASKS
      then (if \<not> active (tasks s i) then int i else findFreeTaskSlot_from s (i + 1))
      else - 1)"
  by pat_completeness auto
termination
  by (relation "measure (\<lambda>(s, i). MAX_TASKS - i)") auto

declare findFreeTaskSlot_from.simps [simp del]

definition findFreeTaskSlot :: "Scheduler \<Rightarrow> int" where
  "findFreeTaskSlot s = findFreeTaskSlot_from s 0"

definition quote :: string where
  "quote = [CHR 0x27]"

text \<open>\<open>createTask(name, taskFunction, stackSize, parameters, priority)\<close>; \<open>nm\<close> is \<open>None\<close>
  for a null \<open>name\<close>, and \<open>taskFunction\<close> is \<open>0\<close> for a null function pointer.\<close>

definition Scheduler_createTask ::
  "string option \<Rightarrow> 32 word \<Rightarrow> 32 word \<Rightarrow> 32 word \<Rightarrow> 32 word \<Rightarrow> Scheduler \<Rightarrow> env
     \<Rightarrow> bool \<times> Scheduler \<times> ext_call list" where
  "Scheduler_createTask nm taskFunction stackSz parameters prio s e =
     (case nm of
        None \<Rightarrow> (False, s, [])
      | Some n \<Rightarrow>
          if taskFunction = 0 \<or> schedulerMutex s = 0 then (False, s, [])
          else
            let mtx = schedulerMutex s
            in if \<not> semTake e mtx then (False, s, [SemTake mtx 1000])
               else if 0 \<le> findTaskByName s n
               then (False, s,
                     [SemTake mtx 1000, SemGive mtx,
                      SerialPrint (Str (''Scheduler: Task '' @ quote)),
                      SerialPrint (Str (cstr n)),
                      SerialPrintln (Str (quote @ '' already exists''))])
               else
                 let slot = findFreeTaskSlot s
                 in if slot < 0
                    then (False, s,
                          [SemTake mtx 1000, SemGive mtx,
                           SerialPrintln (Str ''Scheduler: No free task slots available'')])
                    else
                      let create = TaskCreate taskFunction (cstr n)
                                     (stackSz div sizeof_StackType_t e) parameters prio
                      in (case xTaskCreate_ret e of
                           None \<Rightarrow>
                             (False, s,
                              [SemTake mtx 1000, create, SemGive mtx,
                               SerialPrint (Str (''Scheduler: Failed to create task '' @ quote)),
                               SerialPrint (Str (cstr n)),
                               SerialPrintln (Str quote)])
                         | Some h \<Rightarrow>
                             let old = tasks s (nat slot);
                                 t = old\<lparr>handle := h,
                                         name := strncpy (name old) n 31,
                                         stackSize := stackSz,
                                         priority := prio,
                                         active := True,
                                         state := eReady\<rparr>;
                                 s' = s\<lparr>tasks := (tasks s)(nat slot := t),
                                        taskCount := taskCount s + 1\<rparr>
                             in (True, s',
                                 [SemTake mtx 1000, create, SemGive mtx,
                                  SerialPrint (Str (''Scheduler: Task '' @ quote)),
                                  SerialPrint (Str (cstr n)),
                                  SerialPrintln (Str (quote @ '' created successfully''))])))"

definition Scheduler_deleteTask ::
  "string option \<Rightarrow> Scheduler \<Rightarrow> env \<Rightarrow> bool \<times> Scheduler \<times> ext_call list" where
  "Scheduler_deleteTask nm s e =
     (case nm of
        None \<Rightarrow> (False, s, [])
      | Some n \<Rightarrow>
          if schedulerMutex s = 0 then (False, s, [])
          else
            let mtx = schedulerMutex s
            in if \<not> semTake e mtx then (False, s, [SemTake mtx 1000])
               else
                 let slot = findTaskByName s n
                 in if slot < 0 then (False, s, [SemTake mtx 1000, SemGive mtx])
                    else
                      let old = tasks s (nat slot);
                          del = (if handle old \<noteq> 0 then [TaskDelete (handle old)] else []);
                          t = old\<lparr>active := False, handle := 0, name := memset_0 32\<rparr>;
                          s' = s\<lparr>tasks := (tasks s)(nat slot := t),
                                 taskCount := taskCount s - 1\<rparr>
                      in (True, s',
                          [SemTake mtx 1000] @ del @
                          [SemGive mtx,
                           SerialPrint (Str (''Scheduler: Task '' @ quote)),
                           SerialPrint (Str (cstr n)),
                           SerialPrintln (Str (quote @ '' deleted''))]))"

definition Scheduler_suspendTask ::
  "string option \<Rightarrow> Scheduler \<Rightarrow> env \<Rightarrow> bool \<times> Scheduler \<times> ext_call list" where
  "Scheduler_suspendTask nm s e =
     (case nm of
        None \<Rightarrow> (False, s, [])
      | Some n \<Rightarrow>
          if schedulerMutex s = 0 then (False, s, [])
          else
            let mtx = schedulerMutex s
            in if \<not> semTake e mtx then (False, s, [SemTake mtx 1000])
               else
                 let slot = findTaskByName s n
                 in if 0 \<le> slot \<and> handle (tasks s (nat slot)) \<noteq> 0
                    then
                      let old = tasks s (nat slot);
                          s' = s\<lparr>tasks := (tasks s)(nat slot := old\<lparr>state := eSuspended\<rparr>)\<rparr>
                      in (True, s', [SemTake mtx 1000, TaskSuspend (handle old), SemGive mtx])
                    else (False, s, [SemTake mtx 1000, SemGive mtx]))"

definition Scheduler_resumeTask ::
  "string option \<Rightarrow> Scheduler \<Rightarrow> env \<Rightarrow> bool \<times> Scheduler \<times> ext_call list" where
  "Scheduler_resumeTask nm s e =
     (case nm of
        None \<Rightarrow> (False, s, [])
      | Some n \<Rightarrow>
          if schedulerMutex s = 0 then (False, s, [])
          else
            let mtx = schedulerMutex s
            in if \<not> semTake e mtx then (False, s, [SemTake mtx 1000])
               else
                 let slot = findTaskByName s n
                 in if 0 \<le> slot \<and> handle (tasks s (nat slot)) \<noteq> 0
                    then
                      let old = tasks s (nat slot);
                          s' = s\<lparr>tasks := (tasks s)(nat slot := old\<lparr>state := eReady\<rparr>)\<rparr>
                      in (True, s', [SemTake mtx 1000, TaskResume (handle old), SemGive mtx])
                    else (False, s, [SemTake mtx 1000, SemGive mtx]))"

text \<open>Every \<open>name\<close> field is a \<open>char[32]\<close> whose last byte is NUL: the constructor
  establishes it and the operations keep it (\<open>strncpy\<close> writes 31 bytes).\<close>

definition name_buffers_ok :: "Scheduler \<Rightarrow> bool" where
  "name_buffers_ok s =
     (\<forall>i < MAX_TASKS. length (name (tasks s i)) = 32 \<and> name (tasks s i) ! 31 = NUL)"

section \<open>Kernel facade (src/src/kernel/kernel.h, src/kernel/kernel.cpp)\<close>

text \<open>\<open>scheduler\<close> and \<open>memoryManager\<close> are pointers to objects owned by the kernel:
  \<open>None\<close> is the null pointer.\<close>

record Kernel =
  scheduler :: "Scheduler option"
  memoryManager :: "MemoryManager option"
  systemMutex :: "32 word"
  initialized :: bool
  healthy :: bool
  bootTime :: "32 word"
  uptime :: "32 word"
  totalTasks :: "32 word"
  freeMem :: "32 word"
  minFreeMem :: "32 word"

definition Kernel_ctor :: Kernel where
  "Kernel_ctor =
     \<lparr>scheduler = None, memoryManager = None, systemMutex = 0, initialized = False,
      healthy = False, bootTime = 0, uptime = 0, totalTasks = 0, freeMem = 0,
      minFreeMem = 0\<rparr>"

text \<open>\<open>init\<close>; \<open>sysM\<close>, \<open>memM\<close> and \<open>schM\<close> are the handles returned by the three calls of
  \<open>xSemaphoreCreateMutex\<close>, \<open>uninit\<close> is the memory the scheduler object is built in, and
  \<open>now\<close> is the value of \<open>millis()\<close>.\<close>

definition Kernel_init ::
  "32 word \<Rightarrow> 32 word \<Rightarrow> 32 word \<Rightarrow> (nat \<Rightarrow> TaskInfo) \<Rightarrow> 32 word \<Rightarrow> Kernel
     \<Rightarrow> bool \<times> Kernel \<times> ext_call list" where
  "Kernel_init sysM memM schM uninit now k =
     (if initialized k then (True, k, [])
      else
        let k1 = k\<lparr>systemMutex := sysM\<rparr>
        in if sysM = 0
           then (False, k1,
                 [SemCreateMutex, SerialPrintln (Str ''Kernel: Failed to create system mutex'')])
           else
             let (okM, m, cM) = MemoryManager_init memM MemoryManager_ctor;
                 k2 = k1\<lparr>memoryManager := Some m\<rparr>
             in if \<not> okM
                then (False, k2,
                      [SemCreateMutex] @ cM @
                      [SerialPrintln (Str ''Kernel: Failed to initialize memory manager'')])
                else
                  let (okS, s, cS) = Scheduler_init schM (Scheduler_ctor uninit);
                      k3 = k2\<lparr>scheduler := Some s\<rparr>
                  in if \<not> okS
                     then (False, k3,
                           [SemCreateMutex] @ cM @ cS @
                           [SerialPrintln (Str ''Kernel: Failed to initialize scheduler'')])
                     else
                       (True, k3\<lparr>bootTime := now, healthy := True, initialized := True\<rparr>,
                        [SemCreateMutex] @ cM @ cS @
                        [Millis,
                         SerialPrintln (Str ''Kernel: Core system initialized successfully'')]))"

definition Kernel_takeMutex :: "nat \<Rightarrow> Kernel \<Rightarrow> env \<Rightarrow> bool \<times> ext_call list" where
  "Kernel_takeMutex timeout k e =
     (if systemMutex k = 0 then (False, [])
      else (semTake e (systemMutex k), [SemTake (systemMutex k) timeout]))"

definition Kernel_giveMutex :: "Kernel \<Rightarrow> ext_call list" where
  "Kernel_giveMutex k = (if systemMutex k \<noteq> 0 then [SemGive (systemMutex k)] else [])"

definition Kernel_createTask ::
  "string option \<Rightarrow> 32 word \<Rightarrow> 32 word \<Rightarrow> 32 word \<Rightarrow> 32 word \<Rightarrow> Kernel \<Rightarrow> env
     \<Rightarrow> bool \<times> Kernel \<times> ext_call list" where
  "Kernel_createTask nm taskFunction stackSz parameters prio k e =
     (case scheduler k of
        None \<Rightarrow> (False, k, [])
      | Some s \<Rightarrow>
          if \<not> initialized k then (False, k, [])
          else
            let (took, c1) = Kernel_takeMutex 1000 k e
            in if took
               then
                 let (result, s', c2) =
                       Scheduler_createTask nm taskFunction stackSz parameters prio s e;
                     k' = k\<lparr>scheduler := Some s',
                            totalTasks := (if result then totalTasks k + 1 else totalTasks k)\<rparr>
                 in (result, k', c1 @ c2 @ Kernel_giveMutex k)
               else (False, k, c1))"

definition Kernel_deleteTask ::
  "string option \<Rightarrow> Kernel \<Rightarrow> env \<Rightarrow> bool \<times> Kernel \<times> ext_call list" where
  "Kernel_deleteTask nm k e =
     (case scheduler k of
        None \<Rightarrow> (False, k, [])
      | Some s \<Rightarrow>
          if \<not> initialized k then (False, k, [])
          else
            let (took, c1) = Kernel_takeMutex 1000 k e
            in if took
               then
                 let (result, s', c2) = Scheduler_deleteTask nm s e;
                     k' = k\<lparr>scheduler := Some s',
                            totalTasks := (if result then totalTasks k - 1 else totalTasks k)\<rparr>
                 in (result, k', c1 @ c2 @ Kernel_giveMutex k)
               else (False, k, c1))"

text \<open>\<open>suspendTask\<close> and \<open>resumeTask\<close> of the facade return \<open>void\<close>.\<close>

definition Kernel_suspendTask ::
  "string option \<Rightarrow> Kernel \<Rightarrow> env \<Rightarrow> Kernel \<times> ext_call list" where
  "Kernel_suspendTask nm k e =
     (case scheduler k of
        None \<Rightarrow> (k, [])
      | Some s \<Rightarrow>
          if \<not> initialized k then (k, [])
          else
            let (took, c1) = Kernel_takeMutex 1000 k e
            in if took
               then
                 let (result, s', c2) = Scheduler_suspendTask nm s e
                 in (k\<lparr>scheduler := Some s'\<rparr>, c1 @ c2 @ Kernel_giveMutex k)
               else (k, c1))"

definition Kernel_resumeTask ::
  "string option \<Rightarrow> Kernel \<Rightarrow> env \<Rightarrow> Kernel \<times> ext_call list" where
  "Kernel_resumeTask nm k e =
     (case scheduler k of
        None \<Rightarrow> (k, [])
      | Some s \<Rightarrow>
          if \<not> initialized k then (k, [])
          else
            let (took, c1) = Kernel_takeMutex 1000 k e
            in if took
               then
                 let (result, s', c2) = Scheduler_resumeTask nm s e
                 in (k\<lparr>scheduler := Some s'\<rparr>, c1 @ c2 @ Kernel_giveMutex k)
               else (k, c1))"

text \<open>\<open>allocateMemory\<close> calls \<open>allocate(size)\<close>, whose \<open>tag\<close> defaults to \<open>"unknown"\<close>
  (memory.h).\<close>

definition Kernel_allocateMemory ::
  "32 word \<Rightarrow> Kernel \<Rightarrow> env \<Rightarrow> 32 word \<times> Kernel \<times> ext_call list" where
  "Kernel_allocateMemory sz k e =
     (case memoryManager k of
        None \<Rightarrow> (0, k, [])
      | Some m \<Rightarrow>
          if \<not> initialized k then (0, k, [])
          else
            let (p, m', c) = MemoryManager_allocate sz (Some ''unknown'') m e
            in (p, k\<lparr>memoryManager := Some m'\<rparr>, c))"

definition Kernel_freeMemory ::
  "32 word \<Rightarrow> Kernel \<Rightarrow> env \<Rightarrow> Kernel \<times> ext_call list" where
  "Kernel_freeMemory p k e =
     (case memoryManager k of
        None \<Rightarrow> (k, [])
      | Some m \<Rightarrow>
          if initialized k \<and> p \<noteq> 0
          then
            let (m', c) = MemoryManager_free p m e
            in (k\<lparr>memoryManager := Some m'\<rparr>, c)
          else (k, []))"

section \<open>Linear search\<close>

text \<open>The four search loops of the code have one shape: the first index below \<open>n\<close> that
  satisfies a test, or \<open>-1\<close>. \<open>first_from\<close> is that shape; the loops are shown equal to it
  and their properties are derived once.\<close>

function first_from :: "(nat \<Rightarrow> bool) \<Rightarrow> nat \<Rightarrow> nat \<Rightarrow> int" where
  "first_from P n i = (if i < n then (if P i then int i else first_from P n (i + 1)) else - 1)"
  by pat_completeness auto
termination
  by (relation "measure (\<lambda>(P, n, i). n - i)") auto

declare first_from.simps [simp del]

definition tracked :: "MemoryManager \<Rightarrow> 32 word \<Rightarrow> bool" where
  "tracked m p = (\<exists>i < MAX_MEMORY_BLOCKS. allocated (blocks m i) \<and> ptr (blocks m i) = p)"

section \<open>Concrete states and answers used in the examples\<close>

definition env_ok :: env where
  "env_ok = \<lparr>semTake = (\<lambda>h. True), malloc_ret = 8192, millis_ret = 7,
             xTaskCreate_ret = Some 12288, sizeof_StackType_t = 1\<rparr>"

definition manager_0 :: MemoryManager where
  "manager_0 = initial_manager 1"

definition manager_1 :: MemoryManager where
  "manager_1 = fst (snd (MemoryManager_allocate 100 (Some ''buf'') manager_0 env_ok))"

definition full_manager :: MemoryManager where
  "full_manager =
     \<lparr>blocks = (\<lambda>i. \<lparr>ptr = 4096 + 16 * of_nat i, size_bytes = 16, allocated = True,
                      timestamp = 0, tag = strncpy (memset_0 16) ''x'' 15\<rparr>),
      memoryMutex = 1, totalAllocated = 1024, peakAllocated = 1024,
      allocationCount = 64, freeCount = 0\<rparr>"

definition manager_2 :: MemoryManager where
  "manager_2 = fst (MemoryManager_free 8192 manager_1 env_ok)"

text \<open>A task named \<open>n\<close> is active: some active record's name compares equal to \<open>n\<close>.\<close>

definition name_active :: "Scheduler \<Rightarrow> string \<Rightarrow> bool" where
  "name_active s n =
     (\<exists>i < MAX_TASKS. active (tasks s i) \<and> strcmp_is_0 (name (tasks s i)) n)"

text \<open>A task created under the name \<open>n\<close> is active: \<open>createTask\<close> stores the first 31
  characters of the name it is given, and some active record holds exactly those.\<close>

definition task_active_as :: "Scheduler \<Rightarrow> string \<Rightarrow> bool" where
  "task_active_as s n =
     (\<exists>i < MAX_TASKS. active (tasks s i) \<and> cstr (name (tasks s i)) = take 31 (cstr n))"

definition uninit_0 :: "nat \<Rightarrow> TaskInfo" where
  "uninit_0 = (\<lambda>i. \<lparr>name = replicate 32 (CHR ''?''), handle = 0xDEADBEEF, stackSize = 0xA5A5A5A5,
                    priority = 0, state = eInvalid, stackHighWaterMark = 0xA5A5A5A5,
                    active = True\<rparr>)"

definition scheduler_0 :: Scheduler where
  "scheduler_0 = fst (snd (Scheduler_init 3 (Scheduler_ctor uninit_0)))"

definition env_ok2 :: env where
  "env_ok2 = \<lparr>semTake = (\<lambda>h. True), malloc_ret = 8448, millis_ret = 9,
              xTaskCreate_ret = Some 16384, sizeof_StackType_t = 1\<rparr>"

text \<open>A name of 32 characters.\<close>

definition long_name :: string where
  "long_name = ''AAAAAAAAAAAAAAAAAAAAAAAAAAAAAAAA''"

definition long_once :: Scheduler where
  "long_once = fst (snd (Scheduler_createTask (Some long_name) 1 2048 0 5 scheduler_0 env_ok))"

definition long_twice :: Scheduler where
  "long_twice = fst (snd (Scheduler_createTask (Some long_name) 1 2048 0 5 long_once env_ok2))"

definition worker_created :: Scheduler where
  "worker_created =
     fst (snd (Scheduler_createTask (Some ''worker'') 1 2048 0 5 scheduler_0 env_ok))"

definition worker_deleted :: Scheduler where
  "worker_deleted = fst (snd (Scheduler_deleteTask (Some ''worker'') worker_created env_ok))"

text \<open>No two active records store the same name.\<close>

definition unique_names :: "Scheduler \<Rightarrow> bool" where
  "unique_names s =
     (\<forall>i < MAX_TASKS. \<forall>j < MAX_TASKS.
        active (tasks s i) \<and> active (tasks s j)
        \<and> cstr (name (tasks s i)) = cstr (name (tasks s j)) \<longrightarrow> i = j)"

text \<open>A kernel after \<open>init\<close>, with the mutex handles 1 (facade), 2 (memory manager) and 3
  (scheduler), and answers of the outside world in which the lock of the facade times out while
  every other lock is acquired.\<close>

definition kernel_0 :: Kernel where
  "kernel_0 = fst (snd (Kernel_init 1 2 3 uninit_0 1000 Kernel_ctor))"

definition env_facade_timeout :: env where
  "env_facade_timeout =
     \<lparr>semTake = (\<lambda>h. h \<noteq> 1), malloc_ret = 8192, millis_ret = 7,
      xTaskCreate_ret = Some 12288, sizeof_StackType_t = 1\<rparr>"

section \<open>Properties of the search loops\<close>

lemma step_range:
  "(\<forall>j::nat. i + 1 \<le> j \<and> j < n \<longrightarrow> Q j) \<Longrightarrow> Q i \<Longrightarrow> (\<forall>j. i \<le> j \<and> j < n \<longrightarrow> Q j)"
  by (metis Suc_eq_plus1 Suc_leI le_neq_implies_less)

lemma first_from_cases:
  "(first_from P n i = - 1 \<and> (\<forall>j. i \<le> j \<and> j < n \<longrightarrow> \<not> P j))
   \<or> (\<exists>k. first_from P n i = int k \<and> i \<le> k \<and> k < n \<and> P k
          \<and> (\<forall>j. i \<le> j \<and> j < k \<longrightarrow> \<not> P j))"
proof (induction P n i rule: first_from.induct)
  case (1 P n i)
  show ?case
  proof (cases "i < n")
    case False
    then show ?thesis by (subst first_from.simps) auto
  next
    case inrange: True
    show ?thesis
    proof (cases "P i")
      case True
      with inrange show ?thesis
        by (subst first_from.simps) auto
    next
      case False
      have eq: "first_from P n i = first_from P n (i + 1)"
        using inrange False by (subst first_from.simps) simp
      from "1.IH" [OF inrange False]
      consider
        (none) "first_from P n (i + 1) = - 1" "\<forall>j. i + 1 \<le> j \<and> j < n \<longrightarrow> \<not> P j"
      | (found) k where "first_from P n (i + 1) = int k" "i + 1 \<le> k" "k < n" "P k"
          "\<forall>j. i + 1 \<le> j \<and> j < k \<longrightarrow> \<not> P j"
        by auto
      then show ?thesis
      proof cases
        case none
        from step_range [OF none(2) False] none(1) eq show ?thesis by simp
      next
        case found
        from step_range [OF found(5) False] found(1-4) eq show ?thesis
          by (intro disjI2 exI [of _ k]) simp
      qed
    qed
  qed
qed

lemma first_from_none_iff:
  "first_from P n 0 < 0 \<longleftrightarrow> (\<forall>j < n. \<not> P j)"
  using first_from_cases [of P n 0] by auto

lemma first_from_found:
  assumes "0 \<le> first_from P n 0"
  shows "nat (first_from P n 0) < n \<and> P (nat (first_from P n 0))
         \<and> (\<forall>j < nat (first_from P n 0). \<not> P j)"
  using first_from_cases [of P n 0] assms by auto

lemma first_from_eqI:
  assumes "k < n" "P k" "\<forall>j < k. \<not> P j"
  shows "first_from P n 0 = int k"
proof -
  from first_from_cases [of P n 0] assms(1,2)
  obtain k' where k': "first_from P n 0 = int k'" "k' < n" "P k'" "\<forall>j < k'. \<not> P j"
    by auto
  have "k' = k"
    using k'(3,4) assms(2,3) by (meson linorder_neqE_nat)
  with k'(1) show ?thesis by simp
qed

lemma findFreeBlock_from_first:
  "findFreeBlock_from m i = first_from (\<lambda>j. \<not> allocated (blocks m j)) MAX_MEMORY_BLOCKS i"
proof (induction m i rule: findFreeBlock_from.induct)
  case (1 m i)
  then show ?case
    by (subst findFreeBlock_from.simps, subst first_from.simps) simp
qed

lemma findBlockByPtr_from_first:
  "findBlockByPtr_from m p i =
     first_from (\<lambda>j. allocated (blocks m j) \<and> ptr (blocks m j) = p) MAX_MEMORY_BLOCKS i"
proof (induction m p i rule: findBlockByPtr_from.induct)
  case (1 m p i)
  then show ?case
    by (subst findBlockByPtr_from.simps, subst first_from.simps) auto
qed

lemma findTaskByName_from_first:
  "findTaskByName_from s nm i =
     first_from (\<lambda>j. active (tasks s j) \<and> strcmp_is_0 (name (tasks s j)) nm) MAX_TASKS i"
proof (induction s nm i rule: findTaskByName_from.induct)
  case (1 s nm i)
  then show ?case
    by (subst findTaskByName_from.simps, subst first_from.simps) auto
qed

lemma findFreeTaskSlot_from_first:
  "findFreeTaskSlot_from s i = first_from (\<lambda>j. \<not> active (tasks s j)) MAX_TASKS i"
proof (induction s i rule: findFreeTaskSlot_from.induct)
  case (1 s i)
  then show ?case
    by (subst findFreeTaskSlot_from.simps, subst first_from.simps) simp
qed

lemma findFreeBlock_first:
  "findFreeBlock m = first_from (\<lambda>j. \<not> allocated (blocks m j)) MAX_MEMORY_BLOCKS 0"
  by (simp add: findFreeBlock_def findFreeBlock_from_first)

lemma findBlockByPtr_first:
  "findBlockByPtr m p =
     first_from (\<lambda>j. allocated (blocks m j) \<and> ptr (blocks m j) = p) MAX_MEMORY_BLOCKS 0"
  by (simp add: findBlockByPtr_def findBlockByPtr_from_first)

lemma findTaskByName_first:
  "findTaskByName s nm =
     first_from (\<lambda>j. active (tasks s j) \<and> strcmp_is_0 (name (tasks s j)) nm) MAX_TASKS 0"
  by (simp add: findTaskByName_def findTaskByName_from_first)

lemma findFreeTaskSlot_first:
  "findFreeTaskSlot s = first_from (\<lambda>j. \<not> active (tasks s j)) MAX_TASKS 0"
  by (simp add: findFreeTaskSlot_def findFreeTaskSlot_from_first)

lemma findFreeBlock_none_iff:
  "findFreeBlock m < 0 \<longleftrightarrow> (\<forall>j < MAX_MEMORY_BLOCKS. allocated (blocks m j))"
  unfolding findFreeBlock_first first_from_none_iff by simp

lemma findFreeBlock_found:
  assumes "\<not> findFreeBlock m < 0"
  shows "nat (findFreeBlock m) < MAX_MEMORY_BLOCKS \<and> \<not> allocated (blocks m (nat (findFreeBlock m)))"
proof -
  have "0 \<le> first_from (\<lambda>j. \<not> allocated (blocks m j)) MAX_MEMORY_BLOCKS 0"
    using assms unfolding findFreeBlock_first by simp
  from first_from_found [OF this] show ?thesis
    unfolding findFreeBlock_first by blast
qed

lemma findFreeBlock_eqI:
  assumes "k < MAX_MEMORY_BLOCKS" "\<not> allocated (blocks m k)" "\<forall>j < k. allocated (blocks m j)"
  shows "findFreeBlock m = int k"
  unfolding findFreeBlock_first
  by (rule first_from_eqI) (use assms in simp_all)

lemma findBlockByPtr_none_iff:
  "findBlockByPtr m p < 0 \<longleftrightarrow> \<not> tracked m p"
  unfolding findBlockByPtr_first first_from_none_iff tracked_def by blast

lemma findBlockByPtr_found:
  assumes "\<not> findBlockByPtr m p < 0"
  shows "nat (findBlockByPtr m p) < MAX_MEMORY_BLOCKS
       \<and> allocated (blocks m (nat (findBlockByPtr m p)))
       \<and> ptr (blocks m (nat (findBlockByPtr m p))) = p"
proof -
  have "0 \<le> first_from (\<lambda>j. allocated (blocks m j) \<and> ptr (blocks m j) = p) MAX_MEMORY_BLOCKS 0"
    using assms unfolding findBlockByPtr_first by simp
  from first_from_found [OF this] show ?thesis
    unfolding findBlockByPtr_first by blast
qed

lemma findBlockByPtr_eqI:
  assumes "k < MAX_MEMORY_BLOCKS" "allocated (blocks m k)" "ptr (blocks m k) = p"
    "\<forall>j < k. \<not> (allocated (blocks m j) \<and> ptr (blocks m j) = p)"
  shows "findBlockByPtr m p = int k"
  unfolding findBlockByPtr_first
  by (rule first_from_eqI) (use assms in simp_all)

section \<open>The branches of allocate and free\<close>

lemma allocate_full:
  assumes "findFreeBlock m < 0"
  shows "MemoryManager_allocate sz tg m e =
     (if sz = 0 \<or> memoryMutex m = 0 then (0, m, [])
      else if \<not> semTake e (memoryMutex m) then (0, m, [SemTake (memoryMutex m) 1000])
      else (0, m, [SemTake (memoryMutex m) 1000, SemGive (memoryMutex m),
                   SerialPrintln (Str ''MemoryManager: No free block slots available'')]))"
  using assms unfolding MemoryManager_allocate_def Let_def by simp

lemma allocate_success:
  assumes "sz \<noteq> 0" "memoryMutex m \<noteq> 0" "semTake e (memoryMutex m)"
    "\<not> findFreeBlock m < 0" "malloc_ret e \<noteq> 0"
  shows "fst (MemoryManager_allocate sz tg m e) = malloc_ret e"
    and "fst (snd (MemoryManager_allocate sz tg m e)) =
         m\<lparr>blocks := (blocks m)(nat (findFreeBlock m) :=
                (blocks m (nat (findFreeBlock m)))
                  \<lparr>ptr := malloc_ret e, size_bytes := align_size sz, allocated := True,
                   timestamp := millis_ret e,
                   tag := strncpy (tag (blocks m (nat (findFreeBlock m))))
                            (case tg of None \<Rightarrow> ''unknown'' | Some t \<Rightarrow> t) 15\<rparr>),
            totalAllocated := totalAllocated m + align_size sz,
            allocationCount := allocationCount m + 1,
            peakAllocated :=
              (if totalAllocated m + align_size sz > peakAllocated m
               then totalAllocated m + align_size sz else peakAllocated m)\<rparr>"
    and "Malloc (align_size sz) \<in> set (snd (snd (MemoryManager_allocate sz tg m e)))"
  using assms unfolding MemoryManager_allocate_def Let_def by simp_all

lemma allocate_failure:
  assumes "fst (MemoryManager_allocate sz tg m e) = 0"
  shows "fst (snd (MemoryManager_allocate sz tg m e)) = m"
proof (cases "sz \<noteq> 0 \<and> memoryMutex m \<noteq> 0 \<and> semTake e (memoryMutex m)
               \<and> \<not> findFreeBlock m < 0 \<and> malloc_ret e \<noteq> 0")
  case True
  with allocate_success(1) [of sz m e tg] assms show ?thesis by simp
next
  case False
  then show ?thesis unfolding MemoryManager_allocate_def Let_def by auto
qed

lemma allocate_nonnull:
  assumes "fst (MemoryManager_allocate sz tg m e) \<noteq> 0"
  shows "sz \<noteq> 0 \<and> memoryMutex m \<noteq> 0 \<and> semTake e (memoryMutex m)
       \<and> \<not> findFreeBlock m < 0 \<and> malloc_ret e \<noteq> 0"
proof (rule ccontr)
  assume "\<not> ?thesis"
  then have "fst (MemoryManager_allocate sz tg m e) = 0"
    unfolding MemoryManager_allocate_def Let_def by auto
  with assms show False by simp
qed

lemma free_untracked:
  assumes "findBlockByPtr m p < 0"
  shows "MemoryManager_free p m e =
     (if p = 0 \<or> memoryMutex m = 0 then (m, [])
      else if \<not> semTake e (memoryMutex m) then (m, [SemTake (memoryMutex m) 1000])
      else (m, [SemTake (memoryMutex m) 1000, SemGive (memoryMutex m),
                SerialPrint (Str ''MemoryManager: Attempted to free untracked pointer 0x''),
                SerialPrintln (Hex p)]))"
  using assms unfolding MemoryManager_free_def Let_def by simp

lemma free_skipped:
  assumes "p = 0 \<or> memoryMutex m = 0 \<or> \<not> semTake e (memoryMutex m)"
  shows "fst (MemoryManager_free p m e) = m"
  using assms unfolding MemoryManager_free_def Let_def by auto

lemma free_tracked:
  assumes "p \<noteq> 0" "memoryMutex m \<noteq> 0" "semTake e (memoryMutex m)"
    "\<not> findBlockByPtr m p < 0"
  shows "fst (MemoryManager_free p m e) =
         m\<lparr>totalAllocated := totalAllocated m - size_bytes (blocks m (nat (findBlockByPtr m p))),
            freeCount := freeCount m + 1,
            blocks := (blocks m)(nat (findBlockByPtr m p) := cleared_block)\<rparr>"
    and "HeapFree p \<in> set (snd (MemoryManager_free p m e))"
  using assms unfolding MemoryManager_free_def Let_def by simp_all

section \<open>Concrete states\<close>

lemma initial_manager_eq:
  "initial_manager created = MemoryManager_ctor\<lparr>memoryMutex := created\<rparr>"
  by (simp add: initial_manager_def MemoryManager_init_def Let_def)

lemma manager_0_eq:
  "manager_0 = MemoryManager_ctor\<lparr>memoryMutex := 1\<rparr>"
  by (simp add: manager_0_def initial_manager_eq)

lemma findFreeBlock_manager_0: "findFreeBlock manager_0 = 0"
  using findFreeBlock_eqI [of 0 manager_0]
  by (simp add: manager_0_eq MemoryManager_ctor_def cleared_block_def MAX_MEMORY_BLOCKS_def)

lemma manager_1_eq:
  "manager_1 =
     \<lparr>blocks = (\<lambda>i. cleared_block)
        (0 := \<lparr>ptr = 8192, size_bytes = 100, allocated = True, timestamp = 7,
               tag = strncpy (memset_0 16) ''buf'' 15\<rparr>),
      memoryMutex = 1, totalAllocated = 100, peakAllocated = 100,
      allocationCount = 1, freeCount = 0\<rparr>"
proof -
  have a: "align_size 100 = 100"
    by (simp add: align_size_def MEMORY_ALIGNMENT_def)
  have pre: "(100 :: 32 word) \<noteq> 0" "memoryMutex manager_0 \<noteq> 0"
    "semTake env_ok (memoryMutex manager_0)" "\<not> findFreeBlock manager_0 < 0"
    "malloc_ret env_ok \<noteq> 0"
    by (simp_all add: findFreeBlock_manager_0) (simp_all add: manager_0_eq env_ok_def)
  show ?thesis
    unfolding manager_1_def allocate_success(2) [OF pre] findFreeBlock_manager_0 a
    by (simp add: manager_0_eq MemoryManager_ctor_def cleared_block_def env_ok_def)
qed

section \<open>Claims about the memory manager\<close>

text \<open>
  C4. When every one of the \<open>MAX_MEMORY_BLOCKS\<close> slots is live, \<open>allocate\<close> returns the null
  pointer, makes no call of \<open>malloc\<close>, and returns the manager as it was: every record and
  every counter is unchanged.
\<close>

theorem C4_allocate_full_table:
  assumes "\<forall>i < MAX_MEMORY_BLOCKS. allocated (blocks m i)"
  shows "fst (MemoryManager_allocate sz tg m e) = 0
       \<and> fst (snd (MemoryManager_allocate sz tg m e)) = m
       \<and> (\<forall>n. Malloc n \<notin> set (snd (snd (MemoryManager_allocate sz tg m e))))"
proof -
  have "findFreeBlock m < 0"
    using assms by (simp add: findFreeBlock_none_iff)
  then show ?thesis
    by (simp add: allocate_full)
qed

theorem C4_witness:
  "fst (MemoryManager_allocate 8 (Some ''buf'') full_manager env_ok) = 0
   \<and> fst (snd (MemoryManager_allocate 8 (Some ''buf'') full_manager env_ok)) = full_manager
   \<and> (\<forall>n. Malloc n \<notin> set (snd (snd (MemoryManager_allocate 8 (Some ''buf'') full_manager env_ok))))"
proof -
  have h: "\<forall>i < MAX_MEMORY_BLOCKS. allocated (blocks full_manager i)"
    by (simp add: full_manager_def)
  from C4_allocate_full_table [OF h, of 8 "Some ''buf''" env_ok] show ?thesis
    by simp
qed

text \<open>
  C5. \<open>free\<close> on a pointer that no live record tracks returns the manager as it was (every
  record and counter unchanged) and does not call the external allocator; when the lookup is
  reached (non-null pointer, lock acquired) it prints the message about the untracked pointer
  and gives the lock back. \<open>free\<close> on a tracked pointer (lock acquired) calls the external
  \<open>free\<close>, subtracts the size of the record from \<open>totalAllocated\<close>, adds one to \<open>freeCount\<close>
  and clears that record's slot and no other.
\<close>

theorem C5_free_untracked_and_tracked:
  "(\<not> tracked m p \<longrightarrow>
      fst (MemoryManager_free p m e) = m
      \<and> (\<forall>q. HeapFree q \<notin> set (snd (MemoryManager_free p m e)))
      \<and> (p \<noteq> 0 \<and> memoryMutex m \<noteq> 0 \<and> semTake e (memoryMutex m) \<longrightarrow>
           snd (MemoryManager_free p m e) =
             [SemTake (memoryMutex m) 1000, SemGive (memoryMutex m),
              SerialPrint (Str ''MemoryManager: Attempted to free untracked pointer 0x''),
              SerialPrintln (Hex p)]))
   \<and> (tracked m p \<and> p \<noteq> 0 \<and> memoryMutex m \<noteq> 0 \<and> semTake e (memoryMutex m) \<longrightarrow>
        HeapFree p \<in> set (snd (MemoryManager_free p m e))
        \<and> (\<exists>k < MAX_MEMORY_BLOCKS.
              allocated (blocks m k) \<and> ptr (blocks m k) = p
              \<and> fst (MemoryManager_free p m e) =
                  m\<lparr>totalAllocated := totalAllocated m - size_bytes (blocks m k),
                     freeCount := freeCount m + 1,
                     blocks := (blocks m)(k := cleared_block)\<rparr>))"
proof (intro conjI impI)
  assume u: "\<not> tracked m p"
  then have none: "findBlockByPtr m p < 0"
    by (simp add: findBlockByPtr_none_iff)
  show "fst (MemoryManager_free p m e) = m"
    by (simp add: free_untracked [OF none])
  show "\<forall>q. HeapFree q \<notin> set (snd (MemoryManager_free p m e))"
    by (simp add: free_untracked [OF none])
  assume "p \<noteq> 0 \<and> memoryMutex m \<noteq> 0 \<and> semTake e (memoryMutex m)"
  then show "snd (MemoryManager_free p m e) =
             [SemTake (memoryMutex m) 1000, SemGive (memoryMutex m),
              SerialPrint (Str ''MemoryManager: Attempted to free untracked pointer 0x''),
              SerialPrintln (Hex p)]"
    by (simp add: free_untracked [OF none])
next
  assume t: "tracked m p \<and> p \<noteq> 0 \<and> memoryMutex m \<noteq> 0 \<and> semTake e (memoryMutex m)"
  then have found: "\<not> findBlockByPtr m p < 0"
    by (simp add: findBlockByPtr_none_iff)
  from t free_tracked(2) [OF _ _ _ found]
  show "HeapFree p \<in> set (snd (MemoryManager_free p m e))"
    by blast
  from t free_tracked(1) [OF _ _ _ found] findBlockByPtr_found [OF found]
  show "\<exists>k < MAX_MEMORY_BLOCKS.
              allocated (blocks m k) \<and> ptr (blocks m k) = p
              \<and> fst (MemoryManager_free p m e) =
                  m\<lparr>totalAllocated := totalAllocated m - size_bytes (blocks m k),
                     freeCount := freeCount m + 1,
                     blocks := (blocks m)(k := cleared_block)\<rparr>"
    by blast
qed

lemma tracked_manager_1: "tracked manager_1 p \<longleftrightarrow> p = 8192"
  by (auto simp: tracked_def manager_1_eq cleared_block_def MAX_MEMORY_BLOCKS_def)

theorem C5_witness:
  "\<not> tracked manager_1 20480
   \<and> fst (MemoryManager_free 20480 manager_1 env_ok) = manager_1
   \<and> snd (MemoryManager_free 20480 manager_1 env_ok) =
             [SemTake 1 1000, SemGive 1,
              SerialPrint (Str ''MemoryManager: Attempted to free untracked pointer 0x''),
              SerialPrintln (Hex 20480)]
   \<and> tracked manager_1 8192
   \<and> HeapFree 8192 \<in> set (snd (MemoryManager_free 8192 manager_1 env_ok))
   \<and> totalAllocated (fst (MemoryManager_free 8192 manager_1 env_ok)) = 0
   \<and> freeCount (fst (MemoryManager_free 8192 manager_1 env_ok)) = 1
   \<and> blocks (fst (MemoryManager_free 8192 manager_1 env_ok)) = (\<lambda>i. cleared_block)"
proof -
  have mtx: "memoryMutex manager_1 = 1" and sem: "semTake env_ok 1"
    by (simp_all add: manager_1_eq env_ok_def)
  have u: "\<not> tracked manager_1 20480" and t: "tracked manager_1 8192"
    by (simp_all add: tracked_manager_1)
  from C5_free_untracked_and_tracked [of manager_1 20480 env_ok] u mtx sem
  have 1: "fst (MemoryManager_free 20480 manager_1 env_ok) = manager_1
   \<and> snd (MemoryManager_free 20480 manager_1 env_ok) =
             [SemTake 1 1000, SemGive 1,
              SerialPrint (Str ''MemoryManager: Attempted to free untracked pointer 0x''),
              SerialPrintln (Hex 20480)]"
    by simp
  from C5_free_untracked_and_tracked [of manager_1 8192 env_ok] t mtx sem
  obtain k where k: "k < MAX_MEMORY_BLOCKS" "allocated (blocks manager_1 k)"
     "fst (MemoryManager_free 8192 manager_1 env_ok) =
        manager_1\<lparr>totalAllocated := totalAllocated manager_1 - size_bytes (blocks manager_1 k),
                     freeCount := freeCount manager_1 + 1,
                     blocks := (blocks manager_1)(k := cleared_block)\<rparr>"
     and hf: "HeapFree 8192 \<in> set (snd (MemoryManager_free 8192 manager_1 env_ok))"
    by auto
  have "k = 0"
    using k(2) by (cases "k = 0") (simp_all add: manager_1_eq cleared_block_def)
  with k(3) have 2: "totalAllocated (fst (MemoryManager_free 8192 manager_1 env_ok)) = 0
   \<and> freeCount (fst (MemoryManager_free 8192 manager_1 env_ok)) = 1
   \<and> blocks (fst (MemoryManager_free 8192 manager_1 env_ok)) = (\<lambda>i. cleared_block)"
    by (simp add: manager_1_eq fun_eq_iff)
  from u t 1 2 hf show ?thesis by simp
qed

text \<open>
  C8. For every pointer \<open>p\<close>, \<open>reallocate(p, 0)\<close> returns null and does to the manager and
  to the outside world exactly what \<open>free(p)\<close> does; for every size \<open>n > 0\<close>,
  \<open>reallocate(null, n)\<close> returns what \<open>allocate(n)\<close> returns (its tag is the default
  \<open>"unknown"\<close>) with the same effect.
\<close>

theorem C8_reallocate_special_cases:
  "MemoryManager_reallocate p 0 m e_find e_alloc e_free =
     Inr (0, fst (MemoryManager_free p m e_free), snd (MemoryManager_free p m e_free))
   \<and> (n \<noteq> 0 \<longrightarrow>
        MemoryManager_reallocate 0 n m e_find e_alloc e_free =
          Inr (MemoryManager_allocate n (Some ''unknown'') m e_alloc))"
  by (simp add: MemoryManager_reallocate_def split_beta)

theorem C8_witness:
  "(8 :: 32 word) \<noteq> 0
   \<and> MemoryManager_reallocate 0 8 manager_1 env_ok env_ok env_ok =
       Inr (MemoryManager_allocate 8 (Some ''unknown'') manager_1 env_ok)
   \<and> MemoryManager_reallocate 8192 0 manager_1 env_ok env_ok env_ok =
       Inr (0, fst (MemoryManager_free 8192 manager_1 env_ok),
            snd (MemoryManager_free 8192 manager_1 env_ok))"
  using C8_reallocate_special_cases [of 8192 manager_1 env_ok env_ok env_ok 8]
        C8_reallocate_special_cases [of 0 manager_1 env_ok env_ok env_ok 8]
  by simp

section \<open>The accounting invariant\<close>

lemma live_bytes_update:
  assumes "k < MAX_MEMORY_BLOCKS" and "blocks m' = (blocks m)(k := b)"
  shows "live_bytes m' + block_bytes (blocks m k) = live_bytes m + block_bytes b"
proof -
  let ?A = "{..<MAX_MEMORY_BLOCKS}"
  have k: "finite ?A" "k \<in> ?A"
    using assms(1) by simp_all
  have rest: "(\<Sum>i \<in> ?A - {k}. block_bytes (blocks m' i)) =
              (\<Sum>i \<in> ?A - {k}. block_bytes (blocks m i))"
    by (rule sum.cong) (simp_all add: assms(2))
  have "live_bytes m' = block_bytes b + (\<Sum>i \<in> ?A - {k}. block_bytes (blocks m' i))"
    unfolding live_bytes_def sum.remove [OF k] by (simp add: assms(2))
  moreover
  have "live_bytes m = block_bytes (blocks m k) + (\<Sum>i \<in> ?A - {k}. block_bytes (blocks m i))"
    unfolding live_bytes_def sum.remove [OF k] by simp
  ultimately show ?thesis
    using rest by simp
qed

lemma live_bytes_same_blocks:
  "blocks m' = blocks m \<Longrightarrow> live_bytes m' = live_bytes m"
  by (simp add: live_bytes_def)

text \<open>What one call does to the table and the two counters.\<close>

lemma allocate_effect:
  "fst (snd (MemoryManager_allocate sz tg m e)) = m
   \<or> (\<exists>k b. k < MAX_MEMORY_BLOCKS \<and> \<not> allocated (blocks m k) \<and> allocated b
          \<and> size_bytes b = align_size sz
          \<and> blocks (fst (snd (MemoryManager_allocate sz tg m e))) = (blocks m)(k := b)
          \<and> totalAllocated (fst (snd (MemoryManager_allocate sz tg m e))) =
                totalAllocated m + align_size sz
          \<and> peakAllocated (fst (snd (MemoryManager_allocate sz tg m e))) =
                (if totalAllocated m + align_size sz > peakAllocated m
                 then totalAllocated m + align_size sz else peakAllocated m))"
proof (cases "fst (MemoryManager_allocate sz tg m e) = 0")
  case True
  then show ?thesis by (simp add: allocate_failure)
next
  case False
  from allocate_nonnull [OF False]
  have pre: "sz \<noteq> 0" "memoryMutex m \<noteq> 0" "semTake e (memoryMutex m)"
    "\<not> findFreeBlock m < 0" "malloc_ret e \<noteq> 0"
    by simp_all
  from findFreeBlock_found [OF pre(4)]
  have k: "nat (findFreeBlock m) < MAX_MEMORY_BLOCKS"
    "\<not> allocated (blocks m (nat (findFreeBlock m)))"
    by simp_all
  show ?thesis
    apply (rule disjI2)
    apply (rule exI [of _ "nat (findFreeBlock m)"])
    apply (rule exI [of _ "(blocks m (nat (findFreeBlock m)))
                  \<lparr>ptr := malloc_ret e, size_bytes := align_size sz, allocated := True,
                   timestamp := millis_ret e,
                   tag := strncpy (tag (blocks m (nat (findFreeBlock m))))
                            (case tg of None \<Rightarrow> ''unknown'' | Some t \<Rightarrow> t) 15\<rparr>"])
    using k by (simp add: allocate_success(2) [OF pre])
qed

lemma free_effect:
  "fst (MemoryManager_free p m e) = m
   \<or> (\<exists>k. k < MAX_MEMORY_BLOCKS \<and> allocated (blocks m k)
          \<and> blocks (fst (MemoryManager_free p m e)) = (blocks m)(k := cleared_block)
          \<and> totalAllocated (fst (MemoryManager_free p m e)) =
                totalAllocated m - size_bytes (blocks m k)
          \<and> peakAllocated (fst (MemoryManager_free p m e)) = peakAllocated m)"
proof (cases "p \<noteq> 0 \<and> memoryMutex m \<noteq> 0 \<and> semTake e (memoryMutex m)
               \<and> \<not> findBlockByPtr m p < 0")
  case False
  then have "fst (MemoryManager_free p m e) = m"
    using free_skipped [of p m e] free_untracked [of m p e] by auto
  then show ?thesis by simp
next
  case True
  then have pre: "p \<noteq> 0" "memoryMutex m \<noteq> 0" "semTake e (memoryMutex m)"
    "\<not> findBlockByPtr m p < 0"
    by simp_all
  from findBlockByPtr_found [OF pre(4)]
  have k: "nat (findBlockByPtr m p) < MAX_MEMORY_BLOCKS"
    "allocated (blocks m (nat (findBlockByPtr m p)))"
    by simp_all
  show ?thesis
    apply (rule disjI2)
    apply (rule exI [of _ "nat (findBlockByPtr m p)"])
    using k by (simp add: free_tracked(1) [OF pre])
qed

lemma cleared_block_bytes [simp]: "block_bytes cleared_block = 0"
  by (simp add: block_bytes_def cleared_block_def)

lemma total_is_sum_allocate:
  assumes "total_is_sum m"
  shows "total_is_sum (fst (snd (MemoryManager_allocate sz tg m e)))"
  using allocate_effect [of sz tg m e]
proof (elim disjE exE conjE)
  assume "fst (snd (MemoryManager_allocate sz tg m e)) = m"
  with assms show ?thesis by simp
next
  fix k b
  let ?m' = "fst (snd (MemoryManager_allocate sz tg m e))"
  assume k: "k < MAX_MEMORY_BLOCKS" "\<not> allocated (blocks m k)" "allocated b"
    "size_bytes b = align_size sz" "blocks ?m' = (blocks m)(k := b)"
    and tot: "totalAllocated ?m' = totalAllocated m + align_size sz"
  from live_bytes_update [OF k(1) k(5)] k(2,3,4)
  have "live_bytes ?m' = live_bytes m + unat (align_size sz)"
    by (simp add: block_bytes_def)
  with tot assms show ?thesis
    by (simp add: total_is_sum_def)
qed

lemma total_is_sum_free:
  assumes "total_is_sum m"
  shows "total_is_sum (fst (MemoryManager_free p m e))"
  using free_effect [of p m e]
proof (elim disjE exE conjE)
  assume "fst (MemoryManager_free p m e) = m"
  with assms show ?thesis by simp
next
  fix k
  let ?m' = "fst (MemoryManager_free p m e)"
  assume k: "k < MAX_MEMORY_BLOCKS" "allocated (blocks m k)"
    "blocks ?m' = (blocks m)(k := cleared_block)"
    and tot: "totalAllocated ?m' = totalAllocated m - size_bytes (blocks m k)"
  from live_bytes_update [OF k(1) k(3)] k(2)
  have "live_bytes m = live_bytes ?m' + unat (size_bytes (blocks m k))"
    by (simp add: block_bytes_def cleared_block_def)
  then have "(of_nat (live_bytes m) :: 32 word) =
             of_nat (live_bytes ?m') + size_bytes (blocks m k)"
    by simp
  with tot assms show ?thesis
    by (simp add: total_is_sum_def)
qed

lemma total_is_sum_step:
  "total_is_sum m \<Longrightarrow> total_is_sum (mem_step c m)"
  by (cases c) (simp_all add: total_is_sum_allocate total_is_sum_free)

lemma total_is_sum_run:
  "total_is_sum m \<Longrightarrow> total_is_sum (mem_run cs m)"
  by (induction cs arbitrary: m) (simp_all add: total_is_sum_step)

lemma live_bytes_ctor: "live_bytes (initial_manager created) = 0"
  by (simp add: live_bytes_def initial_manager_eq MemoryManager_ctor_def)

lemma total_is_sum_initial: "total_is_sum (initial_manager created)"
  unfolding total_is_sum_def live_bytes_ctor
  by (simp add: initial_manager_eq MemoryManager_ctor_def)

text \<open>Second invariant: the counter never exceeds the peak, as long as the live bytes fit
  the address space (so that neither counter wraps).\<close>

lemma unat_total:
  assumes "total_is_sum m" "live_bytes m < 2 ^ 32"
  shows "unat (totalAllocated m) = live_bytes m"
  using assms by (simp add: total_is_sum_def unat_of_nat)

lemma below_peak_step:
  assumes inv: "total_is_sum m" and le: "totalAllocated m \<le> peakAllocated m"
    and fits: "live_bytes m < 2 ^ 32" "live_bytes (mem_step c m) < 2 ^ 32"
  shows "totalAllocated (mem_step c m) \<le> peakAllocated (mem_step c m)"
proof (cases c)
  case (Allocate sz tg e)
  from allocate_effect [of sz tg m e] le show ?thesis
    unfolding Allocate mem_step.simps by (auto simp: not_less)
next
  case (Free p e)
  let ?m' = "fst (MemoryManager_free p m e)"
  from free_effect [of p m e] show ?thesis
    unfolding Free mem_step.simps
  proof (elim disjE exE conjE)
    assume "?m' = m"
    with le show "totalAllocated ?m' \<le> peakAllocated ?m'" by simp
  next
    fix k
    assume k: "k < MAX_MEMORY_BLOCKS" "blocks ?m' = (blocks m)(k := cleared_block)"
      and pk: "peakAllocated ?m' = peakAllocated m"
    from live_bytes_update [OF k] have "live_bytes ?m' \<le> live_bytes m"
      by simp
    moreover have "unat (totalAllocated ?m') = live_bytes ?m'"
      using unat_total [OF total_is_sum_free [OF inv, of p e]] fits(2)
      by (simp add: Free)
    moreover have "unat (totalAllocated m) = live_bytes m"
      using unat_total [OF inv fits(1)] .
    ultimately have "totalAllocated ?m' \<le> totalAllocated m"
      by (simp add: word_le_nat_alt)
    with le pk show "totalAllocated ?m' \<le> peakAllocated ?m'"
      by simp
  qed
qed

lemma heap_fits_here: "heap_fits cs m \<Longrightarrow> live_bytes m < 2 ^ 32"
  by (cases cs) simp_all

lemma below_peak_run:
  assumes "total_is_sum m" "totalAllocated m \<le> peakAllocated m" "heap_fits cs m"
  shows "totalAllocated (mem_run cs m) \<le> peakAllocated (mem_run cs m)
       \<and> live_bytes (mem_run cs m) < 2 ^ 32"
  using assms
proof (induction cs arbitrary: m)
  case Nil
  then show ?case by simp
next
  case (Cons c cs)
  from Cons.prems(3) have here: "live_bytes m < 2 ^ 32" and rest: "heap_fits cs (mem_step c m)"
    by simp_all
  have "totalAllocated (mem_step c m) \<le> peakAllocated (mem_step c m)"
    using below_peak_step [OF Cons.prems(1,2) here heap_fits_here [OF rest]] .
  from Cons.IH [OF total_is_sum_step [OF Cons.prems(1)] this rest]
  show ?case by simp
qed

text \<open>
  C1. After any sequence of \<open>allocate\<close> and \<open>free\<close> calls on an initialized manager,
  whatever the outside world answers, \<open>totalAllocated\<close> is the sum of the sizes of the live
  records in the counter's 32-bit arithmetic; and as long as the live bytes fit the 32-bit
  address space, it is that sum as a number and it is at most \<open>peakAllocated\<close>.
\<close>

theorem C1_total_allocated_is_live_sum:
  "totalAllocated (mem_run cs (initial_manager created)) =
     of_nat (live_bytes (mem_run cs (initial_manager created)))
   \<and> (heap_fits cs (initial_manager created) \<longrightarrow>
        unat (totalAllocated (mem_run cs (initial_manager created))) =
          live_bytes (mem_run cs (initial_manager created))
        \<and> totalAllocated (mem_run cs (initial_manager created))
            \<le> peakAllocated (mem_run cs (initial_manager created)))"
proof (intro conjI impI)
  have inv: "total_is_sum (mem_run cs (initial_manager created))"
    by (rule total_is_sum_run [OF total_is_sum_initial])
  then show "totalAllocated (mem_run cs (initial_manager created)) =
     of_nat (live_bytes (mem_run cs (initial_manager created)))"
    by (simp add: total_is_sum_def)
  assume fits: "heap_fits cs (initial_manager created)"
  have start: "totalAllocated (initial_manager created) \<le> peakAllocated (initial_manager created)"
    by (simp add: initial_manager_eq MemoryManager_ctor_def)
  from below_peak_run [OF total_is_sum_initial start fits]
  show "totalAllocated (mem_run cs (initial_manager created))
            \<le> peakAllocated (mem_run cs (initial_manager created))"
    by simp
  from below_peak_run [OF total_is_sum_initial start fits] unat_total [OF inv]
  show "unat (totalAllocated (mem_run cs (initial_manager created))) =
          live_bytes (mem_run cs (initial_manager created))"
    by simp
qed

lemma findBlockByPtr_manager_1: "findBlockByPtr manager_1 8192 = 0"
  using findBlockByPtr_eqI [of 0 manager_1 8192]
  by (simp add: manager_1_eq MAX_MEMORY_BLOCKS_def)

lemma manager_2_eq:
  "manager_2 =
     \<lparr>blocks = (\<lambda>i. cleared_block), memoryMutex = 1, totalAllocated = 0,
      peakAllocated = 100, allocationCount = 1, freeCount = 1\<rparr>"
proof -
  have pre: "(8192 :: 32 word) \<noteq> 0" "memoryMutex manager_1 \<noteq> 0"
    "semTake env_ok (memoryMutex manager_1)" "\<not> findBlockByPtr manager_1 8192 < 0"
    by (simp_all add: findBlockByPtr_manager_1) (simp_all add: manager_1_eq env_ok_def)
  show ?thesis
    unfolding manager_2_def free_tracked(1) [OF pre] findBlockByPtr_manager_1
    by (simp add: manager_1_eq fun_eq_iff)
qed

lemma live_bytes_manager_0: "live_bytes manager_0 = 0"
  by (simp add: manager_0_def live_bytes_ctor)

lemma live_bytes_manager_1: "live_bytes manager_1 = 100"
proof -
  have "blocks manager_1 = (blocks manager_0)
          (0 := \<lparr>ptr = 8192, size_bytes = 100, allocated = True, timestamp = 7,
                 tag = strncpy (memset_0 16) ''buf'' 15\<rparr>)"
    by (simp add: manager_1_eq manager_0_eq MemoryManager_ctor_def)
  from live_bytes_update [OF _ this]
  have "live_bytes manager_1 + block_bytes (blocks manager_0 0) =
        live_bytes manager_0 +
        block_bytes \<lparr>ptr = 8192, size_bytes = 100, allocated = True, timestamp = 7,
                     tag = strncpy (memset_0 16) ''buf'' 15\<rparr>"
    by (simp add: MAX_MEMORY_BLOCKS_def)
  moreover have "block_bytes (blocks manager_0 0) = 0"
    by (simp add: manager_0_eq MemoryManager_ctor_def)
  moreover have "block_bytes \<lparr>ptr = 8192, size_bytes = 100, allocated = True, timestamp = 7,
                     tag = strncpy (memset_0 16) ''buf'' 15\<rparr> = 100"
    by (simp add: block_bytes_def)
  ultimately show ?thesis
    by (simp add: live_bytes_manager_0)
qed

lemma live_bytes_manager_2: "live_bytes manager_2 = 0"
  by (simp add: live_bytes_def manager_2_eq)

theorem C1_witness:
  "heap_fits [Allocate 100 (Some ''buf'') env_ok, Free 8192 env_ok] (initial_manager 1)
   \<and> mem_run [Allocate 100 (Some ''buf'') env_ok, Free 8192 env_ok] (initial_manager 1)
       = manager_2
   \<and> unat (totalAllocated manager_2) = live_bytes manager_2
   \<and> totalAllocated manager_2 \<le> peakAllocated manager_2
   \<and> totalAllocated manager_2 = 0 \<and> peakAllocated manager_2 = 100"
proof -
  have run: "mem_run [Allocate 100 (Some ''buf'') env_ok, Free 8192 env_ok] (initial_manager 1)
       = manager_2"
    by (simp add: manager_2_def manager_1_def manager_0_def)
  have fits: "heap_fits [Allocate 100 (Some ''buf'') env_ok, Free 8192 env_ok] (initial_manager 1)"
    using live_bytes_manager_0 live_bytes_manager_1 live_bytes_manager_2
    by (simp add: manager_2_def manager_1_def manager_0_def)
  note inst = C1_total_allocated_is_live_sum
         [of "[Allocate 100 (Some ''buf'') env_ok, Free 8192 env_ok]" 1, unfolded run]
  from inst fits
  have "unat (totalAllocated manager_2) = live_bytes manager_2
        \<and> totalAllocated manager_2 \<le> peakAllocated manager_2"
    by blast
  moreover have "totalAllocated manager_2 = 0 \<and> peakAllocated manager_2 = 100"
    by (simp add: manager_2_eq)
  ultimately show ?thesis
    using fits run by blast
qed

section \<open>Alignment\<close>

lemma and_not_mask_2: "(x :: 32 word) AND NOT (mask 2) = push_bit 2 (drop_bit 2 x)"
proof (rule bit_eqI)
  fix n
  have s: "2 \<le> n \<Longrightarrow> Suc (Suc (n - 2)) = n" by arith
  show "bit (x AND NOT (mask 2)) n = bit (push_bit 2 (drop_bit 2 x)) n"
    using s by (auto simp: bit_simps not_less dest: bit_imp_le_length)
qed

lemma unat_and_minus_4: "unat ((x :: 32 word) AND - 4) = (unat x div 4) * 4"
proof -
  have m: "(- 4 :: 32 word) = NOT (mask 2)"
    using minus_exp_eq_not_mask [of 2, where ?'a = "32 word"] by simp
  have "unat (push_bit 2 (drop_bit 2 x)) = take_bit 32 (push_bit 2 (unat (drop_bit 2 x)))"
    by (simp add: unsigned_push_bit_eq)
  also have "\<dots> = take_bit 32 ((unat x div 4) * 4)"
    by (simp add: push_bit_eq_mult drop_bit_eq_div unat_div)
  also have "\<dots> = (unat x div 4) * 4"
  proof (rule take_bit_nat_eq_self)
    have "unat x < 2 ^ 32" using unsigned_less [of x] by simp
    then show "unat x div 4 * 4 < 2 ^ 32" by simp
  qed
  finally show ?thesis by (simp add: m and_not_mask_2)
qed

lemma unat_align_size:
  assumes "sz \<le> 0xFFFFFFFC"
  shows "unat (align_size sz) = ((unat sz + 3) div 4) * 4"
proof -
  have "unat sz \<le> 4294967292" using assms by (simp add: word_le_nat_alt)
  then have "unat (sz + 3) = unat sz + 3"
    by (simp add: unat_word_ariths)
  moreover have "align_size sz = (sz + 3) AND - 4"
    by (simp add: align_size_def MEMORY_ALIGNMENT_def add.commute)
  ultimately show ?thesis
    by (simp only: unat_and_minus_4)
qed

lemma align_size_100: "align_size 100 = 100"
  by (simp add: align_size_def MEMORY_ALIGNMENT_def)

lemma align_size_50: "align_size 50 = 52"
  by (simp add: align_size_def MEMORY_ALIGNMENT_def)

lemma findFreeBlock_initial: "findFreeBlock (initial_manager created) = 0"
  using findFreeBlock_eqI [of 0 "initial_manager created"]
  by (simp add: initial_manager_eq MemoryManager_ctor_def cleared_block_def MAX_MEMORY_BLOCKS_def)

text \<open>
  C9, as the code has it. The 32-bit rounding \<open>(size + 3) & ~3\<close> wraps to 0 for the three
  sizes above \<open>2^32 - 4\<close>. For every other size \<open>sz > 0\<close> the rounded size is the least
  multiple of 4 that is at least \<open>sz\<close>; a successful \<open>allocate\<close> passes the rounded size to
  \<open>malloc\<close>, records it in the slot it takes and adds it to \<open>totalAllocated\<close>. On a fresh
  initialized manager, with the lock acquired and \<open>malloc\<close> succeeding, \<open>allocate(100, "buf")\<close>
  gives \<open>totalAllocated = 100\<close>, then \<open>allocate(50, "x")\<close> gives 152, then \<open>free\<close> of the
  first pointer gives 52.
\<close>

theorem C9_rounding_and_example:
  "(sz \<noteq> 0 \<and> sz \<le> 0xFFFFFFFC \<longrightarrow>
      4 dvd unat (align_size sz) \<and> unat sz \<le> unat (align_size sz)
      \<and> unat (align_size sz) < unat sz + 4)
   \<and> (fst (MemoryManager_allocate sz tg m e) \<noteq> 0 \<longrightarrow>
        Malloc (align_size sz) \<in> set (snd (snd (MemoryManager_allocate sz tg m e)))
        \<and> totalAllocated (fst (snd (MemoryManager_allocate sz tg m e))) =
            totalAllocated m + align_size sz
        \<and> (\<exists>k < MAX_MEMORY_BLOCKS.
              \<not> allocated (blocks m k)
              \<and> allocated (blocks (fst (snd (MemoryManager_allocate sz tg m e))) k)
              \<and> ptr (blocks (fst (snd (MemoryManager_allocate sz tg m e))) k) =
                  fst (MemoryManager_allocate sz tg m e)
              \<and> size_bytes (blocks (fst (snd (MemoryManager_allocate sz tg m e))) k) =
                  align_size sz))
   \<and> (created \<noteq> 0 \<and> semTake e1 created \<and> semTake e2 created \<and> semTake e3 created
        \<and> malloc_ret e1 \<noteq> 0 \<and> malloc_ret e2 \<noteq> 0 \<longrightarrow>
        (let m0 = initial_manager created;
             r1 = MemoryManager_allocate 100 (Some ''buf'') m0 e1;
             r2 = MemoryManager_allocate 50 (Some ''x'') (fst (snd r1)) e2;
             r3 = MemoryManager_free (fst r1) (fst (snd r2)) e3
         in totalAllocated (fst (snd r1)) = 100
            \<and> totalAllocated (fst (snd r2)) = 152
            \<and> totalAllocated (fst r3) = 52))"
proof (intro conjI impI)
  assume "sz \<noteq> 0 \<and> sz \<le> 0xFFFFFFFC"
  then have u: "unat (align_size sz) = ((unat sz + 3) div 4) * 4"
    by (simp add: unat_align_size)
  show "4 dvd unat (align_size sz)" unfolding u by simp
  show "unat sz \<le> unat (align_size sz)" unfolding u by arith
  show "unat (align_size sz) < unat sz + 4" unfolding u by arith
next
  assume ok: "fst (MemoryManager_allocate sz tg m e) \<noteq> 0"
  from allocate_nonnull [OF ok]
  have pre: "sz \<noteq> 0" "memoryMutex m \<noteq> 0" "semTake e (memoryMutex m)"
    "\<not> findFreeBlock m < 0" "malloc_ret e \<noteq> 0"
    by simp_all
  show "Malloc (align_size sz) \<in> set (snd (snd (MemoryManager_allocate sz tg m e)))"
    by (rule allocate_success(3) [OF pre])
  show "totalAllocated (fst (snd (MemoryManager_allocate sz tg m e))) =
            totalAllocated m + align_size sz"
    by (simp add: allocate_success(2) [OF pre])
  from findFreeBlock_found [OF pre(4)]
  show "\<exists>k < MAX_MEMORY_BLOCKS.
              \<not> allocated (blocks m k)
              \<and> allocated (blocks (fst (snd (MemoryManager_allocate sz tg m e))) k)
              \<and> ptr (blocks (fst (snd (MemoryManager_allocate sz tg m e))) k) =
                  fst (MemoryManager_allocate sz tg m e)
              \<and> size_bytes (blocks (fst (snd (MemoryManager_allocate sz tg m e))) k) =
                  align_size sz"
    by (intro exI [of _ "nat (findFreeBlock m)"])
       (simp add: allocate_success(1,2) [OF pre])
next
  assume env: "created \<noteq> 0 \<and> semTake e1 created \<and> semTake e2 created \<and> semTake e3 created
        \<and> malloc_ret e1 \<noteq> 0 \<and> malloc_ret e2 \<noteq> 0"
  define m0 where "m0 = initial_manager created"
  define m1 where "m1 = fst (snd (MemoryManager_allocate 100 (Some ''buf'') m0 e1))"
  define m2 where "m2 = fst (snd (MemoryManager_allocate 50 (Some ''x'') m1 e2))"
  define m3 where "m3 = fst (MemoryManager_free (malloc_ret e1) m2 e3)"
  have mtx0: "memoryMutex m0 = created"
    by (simp add: m0_def initial_manager_eq)
  have find0: "findFreeBlock m0 = 0"
    by (simp add: m0_def findFreeBlock_initial)
  have pre1: "(100 :: 32 word) \<noteq> 0" "memoryMutex m0 \<noteq> 0" "semTake e1 (memoryMutex m0)"
    "\<not> findFreeBlock m0 < 0" "malloc_ret e1 \<noteq> 0"
    using env by (simp_all add: mtx0 find0)
  have p1: "fst (MemoryManager_allocate 100 (Some ''buf'') m0 e1) = malloc_ret e1"
    by (rule allocate_success(1) [OF pre1])
  have m1: "m1 = m0\<lparr>blocks := (blocks m0)(0 :=
                (blocks m0 0)
                  \<lparr>ptr := malloc_ret e1, size_bytes := 100, allocated := True,
                   timestamp := millis_ret e1,
                   tag := strncpy (tag (blocks m0 0)) ''buf'' 15\<rparr>),
            totalAllocated := 100, allocationCount := 1, peakAllocated := 100\<rparr>"
    unfolding m1_def allocate_success(2) [OF pre1] find0 align_size_100
    by (simp add: m0_def initial_manager_eq MemoryManager_ctor_def)
  have find1: "findFreeBlock m1 = 1"
    using findFreeBlock_eqI [of 1 m1]
    by (simp add: m1 m0_def initial_manager_eq MemoryManager_ctor_def cleared_block_def
          MAX_MEMORY_BLOCKS_def)
  have pre2: "(50 :: 32 word) \<noteq> 0" "memoryMutex m1 \<noteq> 0" "semTake e2 (memoryMutex m1)"
    "\<not> findFreeBlock m1 < 0" "malloc_ret e2 \<noteq> 0"
    using env by (simp_all add: find1) (simp_all add: m1 mtx0)
  have m2: "m2 = m1\<lparr>blocks := (blocks m1)(1 :=
                (blocks m1 1)
                  \<lparr>ptr := malloc_ret e2, size_bytes := 52, allocated := True,
                   timestamp := millis_ret e2,
                   tag := strncpy (tag (blocks m1 1)) ''x'' 15\<rparr>),
            totalAllocated := 152, allocationCount := 2, peakAllocated := 152\<rparr>"
    unfolding m2_def allocate_success(2) [OF pre2] find1 align_size_50
    by (simp add: m1)
  have find2: "findBlockByPtr m2 (malloc_ret e1) = 0"
    using findBlockByPtr_eqI [of 0 m2 "malloc_ret e1"]
    by (simp add: m2 m1 MAX_MEMORY_BLOCKS_def)
  have pre3: "malloc_ret e1 \<noteq> 0" "memoryMutex m2 \<noteq> 0" "semTake e3 (memoryMutex m2)"
    "\<not> findBlockByPtr m2 (malloc_ret e1) < 0"
    using env by (simp_all add: find2) (simp_all add: m2 m1 mtx0)
  have t3: "totalAllocated m3 = 52"
    unfolding m3_def free_tracked(1) [OF pre3] find2
    by (simp add: m2 m1)
  have t1: "totalAllocated m1 = 100" by (simp add: m1)
  have t2: "totalAllocated m2 = 152" by (simp add: m2)
  from t1 t2 t3 show "let m0 = initial_manager created;
             r1 = MemoryManager_allocate 100 (Some ''buf'') m0 e1;
             r2 = MemoryManager_allocate 50 (Some ''x'') (fst (snd r1)) e2;
             r3 = MemoryManager_free (fst r1) (fst (snd r2)) e3
         in totalAllocated (fst (snd r1)) = 100
            \<and> totalAllocated (fst (snd r2)) = 152
            \<and> totalAllocated (fst r3) = 52"
    unfolding Let_def m3_def m2_def m1_def m0_def [symmetric] p1 [unfolded m0_def] 
    by (simp add: m0_def p1 [unfolded m0_def])
qed

theorem C9_witness:
  "4 dvd unat (align_size 50) \<and> unat (50 :: 32 word) \<le> unat (align_size 50)
   \<and> unat (align_size 50) < unat (50 :: 32 word) + 4
   \<and> Malloc (align_size 50) \<in> set (snd (snd (MemoryManager_allocate 50 (Some ''x'') manager_0 env_ok)))
   \<and> totalAllocated (fst (snd (MemoryManager_allocate 50 (Some ''x'') manager_0 env_ok))) =
        totalAllocated manager_0 + align_size 50
   \<and> totalAllocated (fst (snd (MemoryManager_allocate 100 (Some ''buf'') (initial_manager 1) env_ok)))
        = 100
   \<and> totalAllocated (fst (snd (MemoryManager_allocate 50 (Some ''x'')
        (fst (snd (MemoryManager_allocate 100 (Some ''buf'') (initial_manager 1) env_ok))) env_ok)))
        = 152
   \<and> totalAllocated (fst (MemoryManager_free
        (fst (MemoryManager_allocate 100 (Some ''buf'') (initial_manager 1) env_ok))
        (fst (snd (MemoryManager_allocate 50 (Some ''x'')
          (fst (snd (MemoryManager_allocate 100 (Some ''buf'') (initial_manager 1) env_ok))) env_ok)))
        env_ok))
        = 52"
proof -
  have size_ok: "(50 :: 32 word) \<noteq> 0 \<and> (50 :: 32 word) \<le> 0xFFFFFFFC"
    by simp
  have pre: "(50 :: 32 word) \<noteq> 0" "memoryMutex manager_0 \<noteq> 0"
    "semTake env_ok (memoryMutex manager_0)" "\<not> findFreeBlock manager_0 < 0"
    "malloc_ret env_ok \<noteq> 0"
    by (simp_all add: findFreeBlock_manager_0) (simp_all add: manager_0_eq env_ok_def)
  have nonnull: "fst (MemoryManager_allocate 50 (Some ''x'') manager_0 env_ok) \<noteq> 0"
    unfolding allocate_success(1) [OF pre] by (rule pre(5))
  have env: "(1 :: 32 word) \<noteq> 0 \<and> semTake env_ok 1 \<and> semTake env_ok 1 \<and> semTake env_ok 1
        \<and> malloc_ret env_ok \<noteq> 0 \<and> malloc_ret env_ok \<noteq> 0"
    by (simp add: env_ok_def)
  note inst = C9_rounding_and_example
     [of 50 "Some ''x''" manager_0 env_ok 1 env_ok env_ok env_ok, unfolded Let_def]
  from inst size_ok nonnull env show ?thesis
    by blast
qed

text \<open>
  C9 as stated fails for a size above \<open>2^32 - 4\<close>: for the request of \<open>0xFFFFFFFF\<close> bytes
  the rounded size is 0, which is below the request; \<open>malloc\<close> is asked for 0 bytes, and when
  it answers with a pointer the record gets size 0 and \<open>totalAllocated\<close> stays 0.
\<close>

theorem C9_counterexample:
  "(0xFFFFFFFF :: 32 word) \<noteq> 0
   \<and> align_size 0xFFFFFFFF = 0
   \<and> \<not> (0xFFFFFFFF :: 32 word) \<le> align_size 0xFFFFFFFF
   \<and> fst (MemoryManager_allocate 0xFFFFFFFF (Some ''x'') manager_0 env_ok) = 8192
   \<and> Malloc 0 \<in> set (snd (snd (MemoryManager_allocate 0xFFFFFFFF (Some ''x'') manager_0 env_ok)))
   \<and> size_bytes (blocks (fst (snd (MemoryManager_allocate 0xFFFFFFFF (Some ''x'') manager_0 env_ok))) 0) = 0
   \<and> totalAllocated (fst (snd (MemoryManager_allocate 0xFFFFFFFF (Some ''x'') manager_0 env_ok))) = 0"
proof -
  have a: "align_size 0xFFFFFFFF = 0"
    by (simp add: align_size_def MEMORY_ALIGNMENT_def)
  have pre: "(0xFFFFFFFF :: 32 word) \<noteq> 0" "memoryMutex manager_0 \<noteq> 0"
    "semTake env_ok (memoryMutex manager_0)" "\<not> findFreeBlock manager_0 < 0"
    "malloc_ret env_ok \<noteq> 0"
    by (simp_all add: findFreeBlock_manager_0) (simp_all add: manager_0_eq env_ok_def)
  have 1: "fst (MemoryManager_allocate 0xFFFFFFFF (Some ''x'') manager_0 env_ok) = 8192"
    unfolding allocate_success(1) [OF pre] by (simp add: env_ok_def)
  have 2: "Malloc 0 \<in> set (snd (snd (MemoryManager_allocate 0xFFFFFFFF (Some ''x'') manager_0 env_ok)))"
    using allocate_success(3) [OF pre, of "Some ''x''"] unfolding a .
  have 3: "size_bytes (blocks (fst (snd (MemoryManager_allocate 0xFFFFFFFF (Some ''x'') manager_0 env_ok))) 0) = 0"
    unfolding allocate_success(2) [OF pre] findFreeBlock_manager_0 a by simp
  have 4: "totalAllocated (fst (snd (MemoryManager_allocate 0xFFFFFFFF (Some ''x'') manager_0 env_ok))) = 0"
    unfolding allocate_success(2) [OF pre] a
    by (simp add: manager_0_eq MemoryManager_ctor_def)
  from a 1 2 3 4 show ?thesis by simp
qed

section \<open>C strings\<close>

lemma cstr_no_NUL: "c \<in> set (cstr bytes) \<Longrightarrow> c \<noteq> NUL"
  unfolding cstr_def by (auto dest: set_takeWhileD)

lemma cstr_stops: "(\<And>c. c \<in> set s \<Longrightarrow> c \<noteq> NUL) \<Longrightarrow> cstr (s @ NUL # rest) = s"
  unfolding cstr_def by simp

lemma length_strncpy:
  assumes "n \<le> length dst"
  shows "length (strncpy dst src n) = length dst"
  using assms by (simp add: strncpy_def Let_def)

lemma strncpy_keeps_tail:
  assumes "n \<le> i" "i < length dst"
  shows "strncpy dst src n ! i = dst ! i"
proof -
  have len: "length (take n (cstr src) @ replicate (n - length (take n (cstr src))) NUL) = n"
    by simp
  have "strncpy dst src n =
        (take n (cstr src) @ replicate (n - length (take n (cstr src))) NUL) @ drop n dst"
    by (simp add: strncpy_def Let_def)
  then have "strncpy dst src n ! i = drop n dst ! (i - n)"
    using assms len by (simp only: nth_append) simp
  also have "\<dots> = dst ! i"
    using assms by simp
  finally show ?thesis .
qed

lemma cstr_strncpy:
  assumes "length dst = Suc n" "dst ! n = NUL"
  shows "cstr (strncpy dst src n) = take n (cstr src)"
proof -
  let ?s = "take n (cstr src)"
  have nf: "\<And>c. c \<in> set ?s \<Longrightarrow> c \<noteq> NUL"
    by (auto dest: in_set_takeD cstr_no_NUL)
  have last: "drop n dst = [NUL]"
    using assms Cons_nth_drop_Suc [of n dst] by simp
  have "\<exists>rest. replicate (n - length ?s) NUL @ drop n dst = NUL # rest"
  proof (cases "n - length (cstr src)")
    case 0
    then show ?thesis by (simp add: last)
  next
    case (Suc k)
    then show ?thesis by simp
  qed
  then obtain rest where "replicate (n - length ?s) NUL @ drop n dst = NUL # rest" ..
  then have "strncpy dst src n = ?s @ NUL # rest"
    by (simp add: strncpy_def Let_def)
  with cstr_stops [OF nf] show ?thesis by simp
qed

lemma length_cstr_buffer:
  assumes "n < length buf" "buf ! n = NUL"
  shows "length (cstr buf) \<le> n"
proof (rule ccontr)
  assume "\<not> length (cstr buf) \<le> n"
  then have lt: "n < length (takeWhile (\<lambda>c. c \<noteq> NUL) buf)"
    by (simp add: cstr_def)
  then have "takeWhile (\<lambda>c. c \<noteq> NUL) buf ! n \<in> set (takeWhile (\<lambda>c. c \<noteq> NUL) buf)"
    by simp
  then have "takeWhile (\<lambda>c. c \<noteq> NUL) buf ! n \<noteq> NUL"
    by (auto dest: set_takeWhileD)
  moreover have "takeWhile (\<lambda>c. c \<noteq> NUL) buf ! n = buf ! n"
    using lt by (rule takeWhile_nth)
  ultimately show False using assms(2) by simp
qed

lemma cstr_memset_0 [simp]: "cstr (memset_0 n) = []"
  by (cases n) (simp_all add: cstr_def memset_0_def)

section \<open>The search loops of the scheduler\<close>

lemma findTaskByName_none_iff:
  "findTaskByName s n < 0 \<longleftrightarrow> \<not> name_active s n"
  unfolding findTaskByName_first first_from_none_iff name_active_def by blast

lemma findTaskByName_found:
  assumes "\<not> findTaskByName s n < 0"
  shows "nat (findTaskByName s n) < MAX_TASKS
       \<and> active (tasks s (nat (findTaskByName s n)))
       \<and> strcmp_is_0 (name (tasks s (nat (findTaskByName s n)))) n"
proof -
  have "0 \<le> first_from (\<lambda>j. active (tasks s j) \<and> strcmp_is_0 (name (tasks s j)) n) MAX_TASKS 0"
    using assms unfolding findTaskByName_first by simp
  from first_from_found [OF this] show ?thesis
    unfolding findTaskByName_first by blast
qed

lemma findTaskByName_eqI:
  assumes "k < MAX_TASKS" "active (tasks s k)" "strcmp_is_0 (name (tasks s k)) n"
    "\<forall>j < k. \<not> (active (tasks s j) \<and> strcmp_is_0 (name (tasks s j)) n)"
  shows "findTaskByName s n = int k"
  unfolding findTaskByName_first
  by (rule first_from_eqI) (use assms in simp_all)

lemma findFreeTaskSlot_none_iff:
  "findFreeTaskSlot s < 0 \<longleftrightarrow> (\<forall>j < MAX_TASKS. active (tasks s j))"
  unfolding findFreeTaskSlot_first first_from_none_iff by simp

lemma findFreeTaskSlot_found:
  assumes "\<not> findFreeTaskSlot s < 0"
  shows "nat (findFreeTaskSlot s) < MAX_TASKS \<and> \<not> active (tasks s (nat (findFreeTaskSlot s)))"
proof -
  have "0 \<le> first_from (\<lambda>j. \<not> active (tasks s j)) MAX_TASKS 0"
    using assms unfolding findFreeTaskSlot_first by simp
  from first_from_found [OF this] show ?thesis
    unfolding findFreeTaskSlot_first by blast
qed

lemma findFreeTaskSlot_eqI:
  assumes "k < MAX_TASKS" "\<not> active (tasks s k)" "\<forall>j < k. active (tasks s j)"
  shows "findFreeTaskSlot s = int k"
  unfolding findFreeTaskSlot_first
  by (rule first_from_eqI) (use assms in simp_all)

section \<open>The branches of the scheduler operations\<close>

lemma createTask_rejected:
  assumes "nm = None \<or> taskFunction = 0 \<or> schedulerMutex s = 0
           \<or> \<not> semTake e (schedulerMutex s)
           \<or> (\<exists>n. nm = Some n \<and> (\<not> findTaskByName s n < 0 \<or> findFreeTaskSlot s < 0))"
  shows "fst (Scheduler_createTask nm taskFunction stackSz parameters prio s e) = False"
    and "fst (snd (Scheduler_createTask nm taskFunction stackSz parameters prio s e)) = s"
    and "\<forall>f n d p q. TaskCreate f n d p q \<notin>
           set (snd (snd (Scheduler_createTask nm taskFunction stackSz parameters prio s e)))"
  using assms unfolding Scheduler_createTask_def Let_def
  by (auto split: option.splits)

lemma createTask_spawn_failed:
  assumes "xTaskCreate_ret e = None"
  shows "fst (Scheduler_createTask nm taskFunction stackSz parameters prio s e) = False"
    and "fst (snd (Scheduler_createTask nm taskFunction stackSz parameters prio s e)) = s"
  using assms unfolding Scheduler_createTask_def Let_def
  by (auto split: option.splits)

lemma createTask_created:
  assumes "taskFunction \<noteq> 0" "schedulerMutex s \<noteq> 0" "semTake e (schedulerMutex s)"
    "findTaskByName s n < 0" "\<not> findFreeTaskSlot s < 0" "xTaskCreate_ret e = Some h"
  shows "fst (Scheduler_createTask (Some n) taskFunction stackSz parameters prio s e) = True"
    and "fst (snd (Scheduler_createTask (Some n) taskFunction stackSz parameters prio s e)) =
         s\<lparr>tasks := (tasks s)(nat (findFreeTaskSlot s) :=
               (tasks s (nat (findFreeTaskSlot s)))
                 \<lparr>handle := h,
                  name := strncpy (name (tasks s (nat (findFreeTaskSlot s)))) n 31,
                  stackSize := stackSz, priority := prio, active := True, state := eReady\<rparr>),
            taskCount := taskCount s + 1\<rparr>"
    and "TaskCreate taskFunction (cstr n) (stackSz div sizeof_StackType_t e) parameters prio \<in>
           set (snd (snd (Scheduler_createTask (Some n) taskFunction stackSz parameters prio s e)))"
  using assms unfolding Scheduler_createTask_def Let_def
  by simp_all

lemma createTask_TrueD:
  assumes "fst (Scheduler_createTask nm taskFunction stackSz parameters prio s e)"
  shows "\<exists>n h. nm = Some n \<and> xTaskCreate_ret e = Some h \<and> taskFunction \<noteq> 0
           \<and> schedulerMutex s \<noteq> 0 \<and> semTake e (schedulerMutex s)
           \<and> findTaskByName s n < 0 \<and> \<not> findFreeTaskSlot s < 0"
proof (rule ccontr)
  assume "\<not> ?thesis"
  then have "nm = None \<or> taskFunction = 0 \<or> schedulerMutex s = 0
           \<or> \<not> semTake e (schedulerMutex s)
           \<or> (\<exists>n. nm = Some n \<and> (\<not> findTaskByName s n < 0 \<or> findFreeTaskSlot s < 0))
           \<or> xTaskCreate_ret e = None"
    by (cases nm; cases "xTaskCreate_ret e") auto
  then have "fst (Scheduler_createTask nm taskFunction stackSz parameters prio s e) = False"
    using createTask_rejected(1) [of nm taskFunction s e stackSz parameters prio]
          createTask_spawn_failed(1) [of e nm taskFunction stackSz parameters prio s]
    by blast
  with assms show False by simp
qed

lemma deleteTask_rejected:
  assumes "nm = None \<or> schedulerMutex s = 0 \<or> \<not> semTake e (schedulerMutex s)
           \<or> (\<exists>n. nm = Some n \<and> findTaskByName s n < 0)"
  shows "fst (Scheduler_deleteTask nm s e) = False"
    and "fst (snd (Scheduler_deleteTask nm s e)) = s"
    and "\<forall>h. TaskDelete h \<notin> set (snd (snd (Scheduler_deleteTask nm s e)))"
  using assms unfolding Scheduler_deleteTask_def Let_def
  by (auto split: option.splits)

lemma deleteTask_deleted:
  assumes "schedulerMutex s \<noteq> 0" "semTake e (schedulerMutex s)" "\<not> findTaskByName s n < 0"
  shows "fst (Scheduler_deleteTask (Some n) s e) = True"
    and "fst (snd (Scheduler_deleteTask (Some n) s e)) =
         s\<lparr>tasks := (tasks s)(nat (findTaskByName s n) :=
               (tasks s (nat (findTaskByName s n)))
                 \<lparr>active := False, handle := 0, name := memset_0 32\<rparr>),
            taskCount := taskCount s - 1\<rparr>"
  using assms unfolding Scheduler_deleteTask_def Let_def
  by simp_all

lemma suspendTask_rejected:
  assumes "nm = None \<or> schedulerMutex s = 0 \<or> \<not> semTake e (schedulerMutex s)
           \<or> (\<exists>n. nm = Some n \<and> findTaskByName s n < 0)"
  shows "fst (Scheduler_suspendTask nm s e) = False"
    and "fst (snd (Scheduler_suspendTask nm s e)) = s"
    and "\<forall>h. TaskSuspend h \<notin> set (snd (snd (Scheduler_suspendTask nm s e)))"
  using assms unfolding Scheduler_suspendTask_def Let_def
  by (auto split: option.splits)

lemma resumeTask_rejected:
  assumes "nm = None \<or> schedulerMutex s = 0 \<or> \<not> semTake e (schedulerMutex s)
           \<or> (\<exists>n. nm = Some n \<and> findTaskByName s n < 0)"
  shows "fst (Scheduler_resumeTask nm s e) = False"
    and "fst (snd (Scheduler_resumeTask nm s e)) = s"
    and "\<forall>h. TaskResume h \<notin> set (snd (snd (Scheduler_resumeTask nm s e)))"
  using assms unfolding Scheduler_resumeTask_def Let_def
  by (auto split: option.splits)

section \<open>Name buffers stay NUL-terminated\<close>

lemma created_shape:
  assumes "Scheduler_createTask (Some n) taskFunction stackSz parameters prio s e = (True, s1, c1)"
  obtains k h where "k < MAX_TASKS" "\<not> active (tasks s k)" "\<not> name_active s n"
    "taskFunction \<noteq> 0" "schedulerMutex s \<noteq> 0" "semTake e (schedulerMutex s)"
    "xTaskCreate_ret e = Some h"
    "s1 = s\<lparr>tasks := (tasks s)(k :=
               (tasks s k)\<lparr>handle := h, name := strncpy (name (tasks s k)) n 31,
                           stackSize := stackSz, priority := prio, active := True,
                           state := eReady\<rparr>),
             taskCount := taskCount s + 1\<rparr>"
proof -
  from assms have "fst (Scheduler_createTask (Some n) taskFunction stackSz parameters prio s e)"
    by simp
  from createTask_TrueD [OF this]
  obtain h where pre: "taskFunction \<noteq> 0" "schedulerMutex s \<noteq> 0" "semTake e (schedulerMutex s)"
    "findTaskByName s n < 0" "\<not> findFreeTaskSlot s < 0" "xTaskCreate_ret e = Some h"
    by auto
  from createTask_created(2) [OF pre, of stackSz parameters prio] assms
  have s1: "s1 = s\<lparr>tasks := (tasks s)(nat (findFreeTaskSlot s) :=
               (tasks s (nat (findFreeTaskSlot s)))
                 \<lparr>handle := h,
                  name := strncpy (name (tasks s (nat (findFreeTaskSlot s)))) n 31,
                  stackSize := stackSz, priority := prio, active := True, state := eReady\<rparr>),
            taskCount := taskCount s + 1\<rparr>"
    by simp
  have na: "\<not> name_active s n"
    using pre(4) by (simp add: findTaskByName_none_iff)
  from findFreeTaskSlot_found [OF pre(5)]
  have k: "nat (findFreeTaskSlot s) < MAX_TASKS"
    "\<not> active (tasks s (nat (findFreeTaskSlot s)))"
    by simp_all
  show thesis
    by (rule that [OF k na pre(1,2,3,6) s1])
qed

lemma name_buffers_ok_ctor: "name_buffers_ok (Scheduler_ctor uninit)"
  by (simp add: name_buffers_ok_def Scheduler_ctor_def memset_0_def)

lemma name_buffers_ok_init:
  "name_buffers_ok s \<Longrightarrow> name_buffers_ok (fst (snd (Scheduler_init created s)))"
  by (simp add: name_buffers_ok_def Scheduler_init_def Let_def)

lemma name_buffers_ok_createTask:
  assumes "name_buffers_ok s"
  shows "name_buffers_ok (fst (snd (Scheduler_createTask nm taskFunction stackSz parameters prio s e)))"
proof (cases "fst (Scheduler_createTask nm taskFunction stackSz parameters prio s e)")
  case False
  then have "fst (snd (Scheduler_createTask nm taskFunction stackSz parameters prio s e)) = s"
    using createTask_TrueD createTask_rejected(2) [of nm taskFunction s e stackSz parameters prio]
          createTask_spawn_failed(2) [of e nm taskFunction stackSz parameters prio s]
    unfolding Scheduler_createTask_def Let_def by (auto split: option.splits)
  with assms show ?thesis by simp
next
  case True
  from createTask_TrueD [OF True] obtain n where nm: "nm = Some n" by auto
  obtain s1 c1 where r: "Scheduler_createTask (Some n) taskFunction stackSz parameters prio s e
                         = (True, s1, c1)"
    using True nm by (cases "Scheduler_createTask (Some n) taskFunction stackSz parameters prio s e") auto
  from created_shape [OF r] obtain k h where
    k: "k < MAX_TASKS"
    and s1: "s1 = s\<lparr>tasks := (tasks s)(k :=
               (tasks s k)\<lparr>handle := h, name := strncpy (name (tasks s k)) n 31,
                           stackSize := stackSz, priority := prio, active := True,
                           state := eReady\<rparr>),
             taskCount := taskCount s + 1\<rparr>"
    by blast
  have old: "length (name (tasks s k)) = 32" "name (tasks s k) ! 31 = NUL"
    using assms k by (simp_all add: name_buffers_ok_def)
  have new: "length (strncpy (name (tasks s k)) n 31) = 32"
    "strncpy (name (tasks s k)) n 31 ! 31 = NUL"
    using old by (simp_all add: length_strncpy strncpy_keeps_tail)
  have "name_buffers_ok s1"
    unfolding name_buffers_ok_def s1 using assms new
    by (simp add: name_buffers_ok_def)
  with r nm show ?thesis by simp
qed

lemma name_buffers_ok_deleteTask:
  assumes "name_buffers_ok s"
  shows "name_buffers_ok (fst (snd (Scheduler_deleteTask nm s e)))"
  using assms unfolding Scheduler_deleteTask_def Let_def name_buffers_ok_def
  by (auto simp: memset_0_def split: option.splits)

lemma name_buffers_ok_suspendTask:
  assumes "name_buffers_ok s"
  shows "name_buffers_ok (fst (snd (Scheduler_suspendTask nm s e)))"
  using assms unfolding Scheduler_suspendTask_def Let_def name_buffers_ok_def
  by (auto split: option.splits)

lemma name_buffers_ok_resumeTask:
  assumes "name_buffers_ok s"
  shows "name_buffers_ok (fst (snd (Scheduler_resumeTask nm s e)))"
  using assms unfolding Scheduler_resumeTask_def Let_def name_buffers_ok_def
  by (auto split: option.splits)

lemma stored_names_short:
  assumes "name_buffers_ok s" "i < MAX_TASKS"
  shows "length (cstr (name (tasks s i))) \<le> 31"
  using assms by (intro length_cstr_buffer) (simp_all add: name_buffers_ok_def)

lemma long_name_not_active:
  assumes "name_buffers_ok s" "31 < length (cstr n)"
  shows "\<not> name_active s n"
proof
  assume "name_active s n"
  then obtain i where i: "i < MAX_TASKS" "cstr (name (tasks s i)) = cstr n"
    by (auto simp: name_active_def strcmp_is_0_def)
  from stored_names_short [OF assms(1) i(1)] i(2) assms(2) show False
    by simp
qed

section \<open>Uniqueness of names that fit the buffer\<close>

text \<open>For names of at most 31 characters the duplicate check does its work: \<open>createTask\<close>
  keeps the stored names of the active records distinct, and so do the other operations.\<close>

lemma unique_names_ctor: "unique_names (Scheduler_ctor uninit)"
  by (simp add: unique_names_def Scheduler_ctor_def)

lemma unique_names_init:
  "unique_names s \<Longrightarrow> unique_names (fst (snd (Scheduler_init created s)))"
  by (simp add: unique_names_def Scheduler_init_def Let_def)

lemma unique_names_createTask:
  assumes ok: "name_buffers_ok s" and uniq: "unique_names s"
    and short: "\<forall>n. nm = Some n \<longrightarrow> length (cstr n) \<le> 31"
  shows "unique_names (fst (snd (Scheduler_createTask nm taskFunction stackSz parameters prio s e)))"
proof (cases "fst (Scheduler_createTask nm taskFunction stackSz parameters prio s e)")
  case False
  then have "nm = None \<or> taskFunction = 0 \<or> schedulerMutex s = 0
           \<or> \<not> semTake e (schedulerMutex s)
           \<or> (\<exists>n. nm = Some n \<and> (\<not> findTaskByName s n < 0 \<or> findFreeTaskSlot s < 0))
           \<or> xTaskCreate_ret e = None"
    using createTask_created(1) [of taskFunction s e _ _ stackSz parameters prio]
    by (cases nm; cases "xTaskCreate_ret e") auto
  then have "fst (snd (Scheduler_createTask nm taskFunction stackSz parameters prio s e)) = s"
    using createTask_rejected(2) [of nm taskFunction s e stackSz parameters prio]
          createTask_spawn_failed(2) [of e nm taskFunction stackSz parameters prio s]
    by blast
  with uniq show ?thesis by simp
next
  case True
  from createTask_TrueD [OF True] obtain n where nm: "nm = Some n" by auto
  obtain s1 c1 where r: "Scheduler_createTask (Some n) taskFunction stackSz parameters prio s e
                         = (True, s1, c1)"
    using True nm by (cases "Scheduler_createTask (Some n) taskFunction stackSz parameters prio s e") auto
  from created_shape [OF r] obtain k h where
    k: "k < MAX_TASKS" and fresh: "\<not> name_active s n"
    and s1: "s1 = s\<lparr>tasks := (tasks s)(k :=
               (tasks s k)\<lparr>handle := h, name := strncpy (name (tasks s k)) n 31,
                           stackSize := stackSz, priority := prio, active := True,
                           state := eReady\<rparr>),
             taskCount := taskCount s + 1\<rparr>"
    by blast
  have "cstr (strncpy (name (tasks s k)) n 31) = take 31 (cstr n)"
    using ok k by (intro cstr_strncpy) (simp_all add: name_buffers_ok_def)
  with short nm have stored: "cstr (name (tasks s1 k)) = cstr n"
    by (simp add: s1)
  have other: "cstr (name (tasks s1 j)) \<noteq> cstr n"
    if "j < MAX_TASKS" "j \<noteq> k" "active (tasks s1 j)" for j
    using fresh that by (auto simp: name_active_def strcmp_is_0_def s1)
  have "unique_names s1"
    unfolding unique_names_def
  proof (intro allI impI)
    fix i j
    assume i: "i < MAX_TASKS" and j: "j < MAX_TASKS"
      and a: "active (tasks s1 i) \<and> active (tasks s1 j)
              \<and> cstr (name (tasks s1 i)) = cstr (name (tasks s1 j))"
    show "i = j"
    proof (cases "i = k \<or> j = k")
      case True
      with a stored other [OF i] other [OF j] show ?thesis
        by metis
    next
      case False
      with a have "active (tasks s i) \<and> active (tasks s j)
              \<and> cstr (name (tasks s i)) = cstr (name (tasks s j))"
        by (simp add: s1)
      with uniq i j show ?thesis
        unfolding unique_names_def by blast
    qed
  qed
  with r nm show ?thesis by simp
qed

lemma deleteTask_state:
  "fst (snd (Scheduler_deleteTask nm s e)) = s
   \<or> (\<exists>k. fst (snd (Scheduler_deleteTask nm s e)) =
          s\<lparr>tasks := (tasks s)(k :=
               (tasks s k)\<lparr>active := False, handle := 0, name := memset_0 32\<rparr>),
            taskCount := taskCount s - 1\<rparr>)"
proof (cases "\<exists>n. nm = Some n \<and> schedulerMutex s \<noteq> 0 \<and> semTake e (schedulerMutex s)
                  \<and> \<not> findTaskByName s n < 0")
  case True
  then obtain n where "nm = Some n" "schedulerMutex s \<noteq> 0" "semTake e (schedulerMutex s)"
    "\<not> findTaskByName s n < 0"
    by blast
  with deleteTask_deleted(2) [of s e n] show ?thesis
    by blast
next
  case False
  then have "nm = None \<or> schedulerMutex s = 0 \<or> \<not> semTake e (schedulerMutex s)
           \<or> (\<exists>n. nm = Some n \<and> findTaskByName s n < 0)"
    by (cases nm) auto
  from deleteTask_rejected(2) [OF this] show ?thesis
    by simp
qed

lemma unique_names_deleteTask:
  assumes "unique_names s"
  shows "unique_names (fst (snd (Scheduler_deleteTask nm s e)))"
  using deleteTask_state [of nm s e]
proof (elim disjE exE)
  assume "fst (snd (Scheduler_deleteTask nm s e)) = s"
  with assms show ?thesis by simp
next
  fix k
  assume s2: "fst (snd (Scheduler_deleteTask nm s e)) =
          s\<lparr>tasks := (tasks s)(k :=
               (tasks s k)\<lparr>active := False, handle := 0, name := memset_0 32\<rparr>),
            taskCount := taskCount s - 1\<rparr>"
  show ?thesis
    unfolding s2 unique_names_def
  proof (intro allI impI)
    fix i j
    assume i: "i < MAX_TASKS" and j: "j < MAX_TASKS"
    let ?s2 = "s\<lparr>tasks := (tasks s)(k :=
               (tasks s k)\<lparr>active := False, handle := 0, name := memset_0 32\<rparr>),
            taskCount := taskCount s - 1\<rparr>"
    assume a: "active (tasks ?s2 i) \<and> active (tasks ?s2 j)
               \<and> cstr (name (tasks ?s2 i)) = cstr (name (tasks ?s2 j))"
    then have "i \<noteq> k" "j \<noteq> k"
      by auto
    with a have "active (tasks s i) \<and> active (tasks s j)
               \<and> cstr (name (tasks s i)) = cstr (name (tasks s j))"
      by simp
    with assms i j show "i = j"
      unfolding unique_names_def by blast
  qed
qed

lemma suspendTask_keeps_names:
  "active (tasks (fst (snd (Scheduler_suspendTask nm s e))) i) = active (tasks s i)
   \<and> name (tasks (fst (snd (Scheduler_suspendTask nm s e))) i) = name (tasks s i)"
  unfolding Scheduler_suspendTask_def Let_def
  by (simp split: option.splits)

lemma resumeTask_keeps_names:
  "active (tasks (fst (snd (Scheduler_resumeTask nm s e))) i) = active (tasks s i)
   \<and> name (tasks (fst (snd (Scheduler_resumeTask nm s e))) i) = name (tasks s i)"
  unfolding Scheduler_resumeTask_def Let_def
  by (simp split: option.splits)

lemma unique_names_suspendTask:
  assumes "unique_names s"
  shows "unique_names (fst (snd (Scheduler_suspendTask nm s e)))"
  using assms unfolding unique_names_def
  by (simp add: suspendTask_keeps_names)

lemma unique_names_resumeTask:
  assumes "unique_names s"
  shows "unique_names (fst (snd (Scheduler_resumeTask nm s e)))"
  using assms unfolding unique_names_def
  by (simp add: resumeTask_keeps_names)

section \<open>Concrete scheduler states\<close>

lemma scheduler_0_eq:
  "scheduler_0 =
     \<lparr>tasks = (\<lambda>i. (uninit_0 i)\<lparr>active := False, handle := 0, name := memset_0 32\<rparr>),
      taskCount = 0, schedulerMutex = 3\<rparr>"
  by (simp add: scheduler_0_def Scheduler_init_def Scheduler_ctor_def Let_def)

lemma scheduler_0_ok: "name_buffers_ok scheduler_0"
  unfolding scheduler_0_def by (intro name_buffers_ok_init name_buffers_ok_ctor)

lemma scheduler_0_no_names: "\<not> name_active scheduler_0 n"
  by (simp add: name_active_def scheduler_0_eq)

lemma scheduler_0_free_slot: "findFreeTaskSlot scheduler_0 = 0"
  using findFreeTaskSlot_eqI [of 0 scheduler_0]
  by (simp add: scheduler_0_eq MAX_TASKS_def)

lemma scheduler_0_create:
  assumes "taskFunction \<noteq> 0" "semTake e 3" "xTaskCreate_ret e = Some h"
  shows "fst (Scheduler_createTask (Some n) taskFunction stackSz parameters prio scheduler_0 e) = True"
    and "fst (snd (Scheduler_createTask (Some n) taskFunction stackSz parameters prio scheduler_0 e)) =
         scheduler_0\<lparr>tasks := (tasks scheduler_0)(0 :=
               (tasks scheduler_0 0)
                 \<lparr>handle := h, name := strncpy (memset_0 32) n 31,
                  stackSize := stackSz, priority := prio, active := True, state := eReady\<rparr>),
            taskCount := 1\<rparr>"
    and "TaskCreate taskFunction (cstr n) (stackSz div sizeof_StackType_t e) parameters prio \<in>
           set (snd (snd (Scheduler_createTask (Some n) taskFunction stackSz parameters prio scheduler_0 e)))"
proof -
  have pre: "taskFunction \<noteq> 0" "schedulerMutex scheduler_0 \<noteq> 0"
    "semTake e (schedulerMutex scheduler_0)" "findTaskByName scheduler_0 n < 0"
    "\<not> findFreeTaskSlot scheduler_0 < 0" "xTaskCreate_ret e = Some h"
    using assms
    by (simp_all add: findTaskByName_none_iff scheduler_0_no_names scheduler_0_free_slot)
       (simp_all add: scheduler_0_eq)
  show "fst (Scheduler_createTask (Some n) taskFunction stackSz parameters prio scheduler_0 e) = True"
    by (rule createTask_created(1) [OF pre])
  show "fst (snd (Scheduler_createTask (Some n) taskFunction stackSz parameters prio scheduler_0 e)) =
         scheduler_0\<lparr>tasks := (tasks scheduler_0)(0 :=
               (tasks scheduler_0 0)
                 \<lparr>handle := h, name := strncpy (memset_0 32) n 31,
                  stackSize := stackSz, priority := prio, active := True, state := eReady\<rparr>),
            taskCount := 1\<rparr>"
    unfolding createTask_created(2) [OF pre] scheduler_0_free_slot
    by (simp add: scheduler_0_eq)
  show "TaskCreate taskFunction (cstr n) (stackSz div sizeof_StackType_t e) parameters prio \<in>
           set (snd (snd (Scheduler_createTask (Some n) taskFunction stackSz parameters prio scheduler_0 e)))"
    by (rule createTask_created(3) [OF pre])
qed

lemma env_ok_facts:
  "semTake env_ok h" "xTaskCreate_ret env_ok = Some 12288"
  "semTake env_ok2 h" "xTaskCreate_ret env_ok2 = Some 16384"
  by (simp_all add: env_ok_def env_ok2_def)

lemma worker_created_eq:
  "worker_created =
     scheduler_0\<lparr>tasks := (tasks scheduler_0)(0 :=
         (tasks scheduler_0 0)
            \<lparr>handle := 12288, name := strncpy (memset_0 32) ''worker'' 31,
             stackSize := 2048, priority := 5, active := True, state := eReady\<rparr>),
       taskCount := 1\<rparr>"
  unfolding worker_created_def
  by (rule scheduler_0_create(2)) (simp_all add: env_ok_facts)

lemma long_once_eq:
  "long_once =
     scheduler_0\<lparr>tasks := (tasks scheduler_0)(0 :=
         (tasks scheduler_0 0)
            \<lparr>handle := 12288, name := strncpy (memset_0 32) long_name 31,
             stackSize := 2048, priority := 5, active := True, state := eReady\<rparr>),
       taskCount := 1\<rparr>"
  unfolding long_once_def
  by (rule scheduler_0_create(2)) (simp_all add: env_ok_facts)

lemma cstr_stored:
  "cstr (strncpy (memset_0 32) n 31) = take 31 (cstr n)"
  by (rule cstr_strncpy) (simp_all add: memset_0_def)

lemma cstr_worker: "cstr ''worker'' = ''worker''"
  by (simp add: cstr_def NUL_def)

lemma cstr_long_name: "cstr long_name = long_name"
  by (simp add: cstr_def NUL_def long_name_def)

lemma length_long_name: "length long_name = 32"
  by (simp add: long_name_def)

section \<open>Claims about the task scheduler\<close>

text \<open>
  C3, as the code has it. \<open>createTask\<close> returns failure when the name or the entry point is
  a null pointer, when the name has at most 31 characters and a task created under that name
  is already active, or when no slot is free; in each of these cases it returns the scheduler
  unchanged and makes no call of \<open>xTaskCreate\<close>. (An empty name that is not a null pointer
  is not rejected. A name of more than 31 characters is stored truncated and is left out
  here.)
\<close>

theorem C3_createTask_rejects_before_spawn:
  assumes "nm = None \<or> taskFunction = 0
           \<or> (\<exists>n. nm = Some n \<and> length (cstr n) \<le> 31 \<and> task_active_as s n)
           \<or> (\<forall>i < MAX_TASKS. active (tasks s i))"
  shows "fst (Scheduler_createTask nm taskFunction stackSz parameters prio s e) = False
       \<and> fst (snd (Scheduler_createTask nm taskFunction stackSz parameters prio s e)) = s
       \<and> (\<forall>f n d p q. TaskCreate f n d p q \<notin>
            set (snd (snd (Scheduler_createTask nm taskFunction stackSz parameters prio s e))))"
proof -
  have dup: "name_active s n" if "length (cstr n) \<le> 31" "task_active_as s n" for n
    using that unfolding task_active_as_def name_active_def strcmp_is_0_def by simp
  have "nm = None \<or> taskFunction = 0 \<or> schedulerMutex s = 0
           \<or> \<not> semTake e (schedulerMutex s)
           \<or> (\<exists>n. nm = Some n \<and> (\<not> findTaskByName s n < 0 \<or> findFreeTaskSlot s < 0))"
    using assms dup
    by (cases nm) (auto simp: findTaskByName_none_iff findFreeTaskSlot_none_iff)
  from createTask_rejected [OF this] show ?thesis
    by blast
qed

lemma worker_active_as: "task_active_as worker_created ''worker''"
proof -
  have "active (tasks worker_created 0)"
    by (simp add: worker_created_eq)
  moreover have "cstr (name (tasks worker_created 0)) = take 31 (cstr ''worker'')"
    by (simp add: worker_created_eq cstr_stored)
  ultimately show ?thesis
    unfolding task_active_as_def MAX_TASKS_def by (intro exI [of _ 0]) simp
qed

theorem C3_witness:
  "length (cstr ''worker'') \<le> 31
   \<and> task_active_as worker_created ''worker''
   \<and> fst (Scheduler_createTask (Some ''worker'') 2 2048 0 1 worker_created env_ok2) = False
   \<and> fst (snd (Scheduler_createTask (Some ''worker'') 2 2048 0 1 worker_created env_ok2))
       = worker_created
   \<and> (\<forall>f n d p q. TaskCreate f n d p q \<notin>
        set (snd (snd (Scheduler_createTask (Some ''worker'') 2 2048 0 1 worker_created env_ok2))))"
proof -
  have len: "length (cstr ''worker'') \<le> 31"
    by (simp add: cstr_worker)
  have h: "Some ''worker'' = None \<or> (2 :: 32 word) = 0
           \<or> (\<exists>n. Some ''worker'' = Some n \<and> length (cstr n) \<le> 31
                  \<and> task_active_as worker_created n)
           \<or> (\<forall>i < MAX_TASKS. active (tasks worker_created i))"
    using worker_active_as len by blast
  from C3_createTask_rejects_before_spawn [OF h, of 2048 0 1 env_ok2] worker_active_as len
  show ?thesis by blast
qed

text \<open>
  C3 as stated fails for an empty name: \<open>createTask("", fn, 2048, null, 5)\<close> on a fresh
  initialized scheduler succeeds and calls \<open>xTaskCreate\<close>.
\<close>

theorem C3_counterexample:
  "fst (Scheduler_createTask (Some []) 1 2048 0 5 scheduler_0 env_ok) = True
   \<and> TaskCreate 1 [] 2048 0 5 \<in>
        set (snd (snd (Scheduler_createTask (Some []) 1 2048 0 5 scheduler_0 env_ok)))
   \<and> active (tasks (fst (snd (Scheduler_createTask (Some []) 1 2048 0 5 scheduler_0 env_ok))) 0)"
proof -
  have pre: "(1 :: 32 word) \<noteq> 0" "semTake env_ok 3" "xTaskCreate_ret env_ok = Some 12288"
    by (simp_all add: env_ok_facts)
  have "cstr [] = []" "sizeof_StackType_t env_ok = 1"
    by (simp_all add: cstr_def env_ok_def)
  with scheduler_0_create [OF pre, of "[]" 2048 0 5] show ?thesis
    by simp
qed

text \<open>
  C10. After a successful \<open>createTask\<close> the slot it took holds the first 31 characters of
  the requested name; the lookup finds a name exactly when an active record's stored string
  equals the whole name asked for; so when the name has more than 31 characters the lookup
  does not find it, and \<open>deleteTask\<close>, \<open>suspendTask\<close> and \<open>resumeTask\<close> with that name
  return failure and change nothing.
\<close>

theorem C10_truncated_name_is_not_found:
  assumes "name_buffers_ok s"
    and "Scheduler_createTask (Some n) taskFunction stackSz parameters prio s e1 = (True, s1, c1)"
  shows "(\<exists>k < MAX_TASKS. \<not> active (tasks s k) \<and> active (tasks s1 k)
            \<and> cstr (name (tasks s1 k)) = take 31 (cstr n))
       \<and> (\<forall>q. (0 \<le> findTaskByName s1 q) =
               (\<exists>i < MAX_TASKS. active (tasks s1 i) \<and> cstr (name (tasks s1 i)) = cstr q))
       \<and> (31 < length (cstr n) \<longrightarrow>
            findTaskByName s1 n < 0
            \<and> fst (Scheduler_deleteTask (Some n) s1 e2) = False
            \<and> fst (snd (Scheduler_deleteTask (Some n) s1 e2)) = s1
            \<and> fst (Scheduler_suspendTask (Some n) s1 e3) = False
            \<and> fst (Scheduler_resumeTask (Some n) s1 e4) = False)"
proof (intro conjI impI allI)
  from created_shape [OF assms(2)] obtain k h where
    k: "k < MAX_TASKS" "\<not> active (tasks s k)"
    and s1: "s1 = s\<lparr>tasks := (tasks s)(k :=
               (tasks s k)\<lparr>handle := h, name := strncpy (name (tasks s k)) n 31,
                           stackSize := stackSz, priority := prio, active := True,
                           state := eReady\<rparr>),
             taskCount := taskCount s + 1\<rparr>"
    by blast
  have "cstr (strncpy (name (tasks s k)) n 31) = take 31 (cstr n)"
    using assms(1) k(1) by (intro cstr_strncpy) (simp_all add: name_buffers_ok_def)
  then show "\<exists>k < MAX_TASKS. \<not> active (tasks s k) \<and> active (tasks s1 k)
            \<and> cstr (name (tasks s1 k)) = take 31 (cstr n)"
    using k by (intro exI [of _ k]) (simp add: s1)
next
  fix q
  show "(0 \<le> findTaskByName s1 q) =
               (\<exists>i < MAX_TASKS. active (tasks s1 i) \<and> cstr (name (tasks s1 i)) = cstr q)"
    using findTaskByName_none_iff [of s1 q]
    by (auto simp: name_active_def strcmp_is_0_def not_less [symmetric])
next
  assume long: "31 < length (cstr n)"
  have "name_buffers_ok s1"
    using name_buffers_ok_createTask [OF assms(1), of "Some n" taskFunction stackSz parameters prio e1]
    by (simp add: assms(2))
  from long_name_not_active [OF this long]
  have none: "findTaskByName s1 n < 0"
    by (simp add: findTaskByName_none_iff)
  then have rej: "Some n = None \<or> schedulerMutex s1 = 0 \<or> \<not> semTake e (schedulerMutex s1)
           \<or> (\<exists>n'. Some n = Some n' \<and> findTaskByName s1 n' < 0)" for e :: env
    by simp
  show "findTaskByName s1 n < 0" by (rule none)
  show "fst (Scheduler_deleteTask (Some n) s1 e2) = False"
    by (rule deleteTask_rejected(1) [OF rej])
  show "fst (snd (Scheduler_deleteTask (Some n) s1 e2)) = s1"
    by (rule deleteTask_rejected(2) [OF rej])
  show "fst (Scheduler_suspendTask (Some n) s1 e3) = False"
    by (rule suspendTask_rejected(1) [OF rej])
  show "fst (Scheduler_resumeTask (Some n) s1 e4) = False"
    by (rule resumeTask_rejected(1) [OF rej])
qed

lemma long_once_result:
  "Scheduler_createTask (Some long_name) 1 2048 0 5 scheduler_0 env_ok =
     (True, long_once,
      snd (snd (Scheduler_createTask (Some long_name) 1 2048 0 5 scheduler_0 env_ok)))"
proof -
  have "fst (Scheduler_createTask (Some long_name) 1 2048 0 5 scheduler_0 env_ok) = True"
    by (rule scheduler_0_create(1)) (simp_all add: env_ok_facts)
  then show ?thesis
    by (simp add: long_once_def prod_eq_iff)
qed

theorem C10_witness:
  "31 < length (cstr long_name)
   \<and> fst (Scheduler_createTask (Some long_name) 1 2048 0 5 scheduler_0 env_ok) = True
   \<and> findTaskByName long_once long_name < 0
   \<and> fst (Scheduler_deleteTask (Some long_name) long_once env_ok2) = False
   \<and> fst (snd (Scheduler_deleteTask (Some long_name) long_once env_ok2)) = long_once
   \<and> fst (Scheduler_suspendTask (Some long_name) long_once env_ok2) = False
   \<and> fst (Scheduler_resumeTask (Some long_name) long_once env_ok2) = False"
proof -
  have len: "31 < length (cstr long_name)"
    by (simp add: cstr_long_name length_long_name)
  have created: "fst (Scheduler_createTask (Some long_name) 1 2048 0 5 scheduler_0 env_ok) = True"
    by (rule scheduler_0_create(1)) (simp_all add: env_ok_facts)
  from C10_truncated_name_is_not_found
         [OF scheduler_0_ok long_once_result, of env_ok2 env_ok2 env_ok2] len created
  show ?thesis
    by blast
qed

text \<open>
  C6, as the code has it. When \<open>createTask\<close> succeeds for a name of at most 31 characters and
  \<open>deleteTask\<close> is then called with the same name and acquires the lock, \<open>deleteTask\<close>
  succeeds; in the slot the task had, \<open>active\<close> is false, \<open>handle\<close> is null and \<open>name\<close> is
  all zeros, while \<open>stackSize\<close>, \<open>priority\<close> and \<open>state\<close> keep the values of the creation
  and \<open>stackHighWaterMark\<close> is not written; no other slot changes; and a later
  \<open>createTask\<close> with the same name succeeds whenever it gets the lock and the external
  scheduler creates the task.
\<close>

theorem C6_delete_then_name_reusable:
  assumes "name_buffers_ok s" and "length (cstr n) \<le> 31"
    and "Scheduler_createTask (Some n) taskFunction stackSz parameters prio s e1 = (True, s1, c1)"
    and "semTake e2 (schedulerMutex s1)"
  shows "fst (Scheduler_deleteTask (Some n) s1 e2) = True
       \<and> (\<exists>k < MAX_TASKS. \<not> active (tasks s k) \<and> active (tasks s1 k)
             \<and> \<not> active (tasks (fst (snd (Scheduler_deleteTask (Some n) s1 e2))) k)
             \<and> handle (tasks (fst (snd (Scheduler_deleteTask (Some n) s1 e2))) k) = 0
             \<and> name (tasks (fst (snd (Scheduler_deleteTask (Some n) s1 e2))) k) = memset_0 32
             \<and> stackSize (tasks (fst (snd (Scheduler_deleteTask (Some n) s1 e2))) k) = stackSz
             \<and> priority (tasks (fst (snd (Scheduler_deleteTask (Some n) s1 e2))) k) = prio
             \<and> state (tasks (fst (snd (Scheduler_deleteTask (Some n) s1 e2))) k) = eReady
             \<and> stackHighWaterMark (tasks (fst (snd (Scheduler_deleteTask (Some n) s1 e2))) k) =
                 stackHighWaterMark (tasks s k)
             \<and> (\<forall>j. j \<noteq> k \<longrightarrow>
                   tasks (fst (snd (Scheduler_deleteTask (Some n) s1 e2))) j = tasks s j))
       \<and> taskCount (fst (snd (Scheduler_deleteTask (Some n) s1 e2))) = taskCount s
       \<and> \<not> name_active (fst (snd (Scheduler_deleteTask (Some n) s1 e2))) n
       \<and> (taskFunction3 \<noteq> 0
            \<and> semTake e3 (schedulerMutex (fst (snd (Scheduler_deleteTask (Some n) s1 e2))))
            \<and> xTaskCreate_ret e3 \<noteq> None \<longrightarrow>
            fst (Scheduler_createTask (Some n) taskFunction3 stackSz3 parameters3 prio3
                   (fst (snd (Scheduler_deleteTask (Some n) s1 e2))) e3) = True)"
proof -
  from created_shape [OF assms(3)] obtain k h where
    k: "k < MAX_TASKS" "\<not> active (tasks s k)"
    and fresh: "\<not> name_active s n"
    and mtx: "schedulerMutex s \<noteq> 0"
    and s1: "s1 = s\<lparr>tasks := (tasks s)(k :=
               (tasks s k)\<lparr>handle := h, name := strncpy (name (tasks s k)) n 31,
                           stackSize := stackSz, priority := prio, active := True,
                           state := eReady\<rparr>),
             taskCount := taskCount s + 1\<rparr>"
    by blast
  have others: "\<not> (active (tasks s j) \<and> strcmp_is_0 (name (tasks s j)) n)" if "j < MAX_TASKS" for j
    using fresh that by (auto simp: name_active_def)
  have stored: "cstr (strncpy (name (tasks s k)) n 31) = cstr n"
  proof -
    have "cstr (strncpy (name (tasks s k)) n 31) = take 31 (cstr n)"
      using assms(1) k(1) by (intro cstr_strncpy) (simp_all add: name_buffers_ok_def)
    with assms(2) show ?thesis by simp
  qed
  have found: "findTaskByName s1 n = int k"
  proof (rule findTaskByName_eqI [OF k(1)])
    show "active (tasks s1 k)" by (simp add: s1)
    show "strcmp_is_0 (name (tasks s1 k)) n"
      by (simp add: s1 strcmp_is_0_def stored)
    show "\<forall>j < k. \<not> (active (tasks s1 j) \<and> strcmp_is_0 (name (tasks s1 j)) n)"
      using others k(1) by (auto simp: s1)
  qed
  have pre2: "schedulerMutex s1 \<noteq> 0" "semTake e2 (schedulerMutex s1)"
    "\<not> findTaskByName s1 n < 0"
    using mtx assms(4) by (simp_all add: found) (simp add: s1)
  let ?s2 = "fst (snd (Scheduler_deleteTask (Some n) s1 e2))"
  have s2: "?s2 = s1\<lparr>tasks := (tasks s1)(k :=
                      (tasks s1 k)\<lparr>active := False, handle := 0, name := memset_0 32\<rparr>),
                    taskCount := taskCount s1 - 1\<rparr>"
    unfolding deleteTask_deleted(2) [OF pre2] found by simp
  have gone: "\<not> name_active ?s2 n"
    unfolding name_active_def s2 using others by (auto simp: s1)
  have 1: "fst (Scheduler_deleteTask (Some n) s1 e2) = True"
    by (rule deleteTask_deleted(1) [OF pre2])
  have 2: "\<exists>k < MAX_TASKS. \<not> active (tasks s k) \<and> active (tasks s1 k)
             \<and> \<not> active (tasks ?s2 k)
             \<and> handle (tasks ?s2 k) = 0
             \<and> name (tasks ?s2 k) = memset_0 32
             \<and> stackSize (tasks ?s2 k) = stackSz
             \<and> priority (tasks ?s2 k) = prio
             \<and> state (tasks ?s2 k) = eReady
             \<and> stackHighWaterMark (tasks ?s2 k) = stackHighWaterMark (tasks s k)
             \<and> (\<forall>j. j \<noteq> k \<longrightarrow> tasks ?s2 j = tasks s j)"
    using k by (intro exI [of _ k]) (simp add: s2, simp add: s1)
  have 3: "taskCount ?s2 = taskCount s"
    by (simp add: s2) (simp add: s1)
  have 4: "fst (Scheduler_createTask (Some n) taskFunction3 stackSz3 parameters3 prio3 ?s2 e3)
            = True"
    if env: "taskFunction3 \<noteq> 0 \<and> semTake e3 (schedulerMutex ?s2) \<and> xTaskCreate_ret e3 \<noteq> None"
  proof -
    from env obtain h3 where h3: "xTaskCreate_ret e3 = Some h3" by auto
    have free: "\<not> findFreeTaskSlot ?s2 < 0"
      unfolding findFreeTaskSlot_none_iff using k(1) by (auto simp: s2)
    have "schedulerMutex ?s2 \<noteq> 0" using mtx by (simp add: s2) (simp add: s1)
    with env gone free h3 show ?thesis
      by (intro createTask_created(1)) (simp_all add: findTaskByName_none_iff)
  qed
  from 1 2 3 gone 4 show ?thesis
    by blast
qed

lemma worker_created_result:
  "Scheduler_createTask (Some ''worker'') 1 2048 0 5 scheduler_0 env_ok =
     (True, worker_created,
      snd (snd (Scheduler_createTask (Some ''worker'') 1 2048 0 5 scheduler_0 env_ok)))"
proof -
  have "fst (Scheduler_createTask (Some ''worker'') 1 2048 0 5 scheduler_0 env_ok) = True"
    by (rule scheduler_0_create(1)) (simp_all add: env_ok_facts)
  then show ?thesis
    by (simp add: worker_created_def prod_eq_iff)
qed

lemma worker_found: "findTaskByName worker_created ''worker'' = 0"
  using findTaskByName_eqI [of 0 worker_created "''worker''"]
  by (simp add: MAX_TASKS_def)
     (simp add: worker_created_eq strcmp_is_0_def cstr_stored cstr_worker)

lemma worker_deleted_eq:
  "worker_deleted =
     worker_created\<lparr>tasks := (tasks worker_created)(0 :=
         (tasks worker_created 0)\<lparr>active := False, handle := 0, name := memset_0 32\<rparr>),
       taskCount := taskCount worker_created - 1\<rparr>"
proof -
  have pre: "schedulerMutex worker_created \<noteq> 0" "semTake env_ok (schedulerMutex worker_created)"
    "\<not> findTaskByName worker_created ''worker'' < 0"
    by (simp_all add: worker_found env_ok_facts) (simp add: worker_created_eq scheduler_0_eq)
  show ?thesis
    unfolding worker_deleted_def deleteTask_deleted(2) [OF pre] worker_found
    by simp
qed

theorem C6_witness:
  "length (cstr ''worker'') \<le> 31
   \<and> fst (Scheduler_createTask (Some ''worker'') 1 2048 0 5 scheduler_0 env_ok) = True
   \<and> fst (Scheduler_deleteTask (Some ''worker'') worker_created env_ok) = True
   \<and> taskCount worker_deleted = taskCount scheduler_0
   \<and> \<not> name_active worker_deleted ''worker''
   \<and> fst (Scheduler_createTask (Some ''worker'') 2 2048 0 1 worker_deleted env_ok2) = True"
proof -
  have len: "length (cstr ''worker'') \<le> 31"
    by (simp add: cstr_worker)
  have created: "fst (Scheduler_createTask (Some ''worker'') 1 2048 0 5 scheduler_0 env_ok) = True"
    by (rule scheduler_0_create(1)) (simp_all add: env_ok_facts)
  have env3: "(2 :: 32 word) \<noteq> 0 \<and> semTake env_ok2 (schedulerMutex worker_deleted)
              \<and> xTaskCreate_ret env_ok2 \<noteq> None"
    by (simp add: env_ok_facts)
  note inst = C6_delete_then_name_reusable
      [OF scheduler_0_ok len worker_created_result env_ok_facts(1),
       of 2 env_ok2 2048 0 1, folded worker_deleted_def]
  from inst env3 len created show ?thesis
    by blast
qed

text \<open>
  C6 as stated fails: after \<open>createTask("worker", fn, 2048, null, 5)\<close> and
  \<open>deleteTask("worker")\<close> the slot is inactive with a null handle and a zeroed name, but its
  \<open>stackSize\<close>, \<open>priority\<close> and \<open>state\<close> are still 2048, 5 and \<open>eReady\<close>.
\<close>

theorem C6_counterexample:
  "fst (Scheduler_createTask (Some ''worker'') 1 2048 0 5 scheduler_0 env_ok) = True
   \<and> active (tasks worker_created 0)
   \<and> fst (Scheduler_deleteTask (Some ''worker'') worker_created env_ok) = True
   \<and> \<not> active (tasks worker_deleted 0)
   \<and> handle (tasks worker_deleted 0) = 0
   \<and> name (tasks worker_deleted 0) = memset_0 32
   \<and> stackSize (tasks worker_deleted 0) = 2048
   \<and> priority (tasks worker_deleted 0) = 5
   \<and> state (tasks worker_deleted 0) = eReady"
proof -
  have created: "fst (Scheduler_createTask (Some ''worker'') 1 2048 0 5 scheduler_0 env_ok) = True"
    by (rule scheduler_0_create(1)) (simp_all add: env_ok_facts)
  have pre: "schedulerMutex worker_created \<noteq> 0" "semTake env_ok (schedulerMutex worker_created)"
    "\<not> findTaskByName worker_created ''worker'' < 0"
    by (simp_all add: worker_found env_ok_facts) (simp add: worker_created_eq scheduler_0_eq)
  have deleted: "fst (Scheduler_deleteTask (Some ''worker'') worker_created env_ok) = True"
    by (rule deleteTask_deleted(1) [OF pre])
  have "active (tasks worker_created 0)"
    by (simp add: worker_created_eq)
  with created deleted show ?thesis
    by (simp add: worker_deleted_eq) (simp add: worker_created_eq)
qed

text \<open>
  C2, the failing input. The name has 32 characters; the first \<open>createTask\<close> stores its
  first 31 characters in slot 0. The second \<open>createTask\<close> with the same name compares the 32
  characters with the 31 stored ones, finds no duplicate, and succeeds: slots 0 and 1 are
  both active, their stored names are equal, and two tasks were created.
\<close>

theorem C2_two_active_records_same_name:
  "fst (Scheduler_createTask (Some long_name) 1 2048 0 5 scheduler_0 env_ok) = True
   \<and> fst (Scheduler_createTask (Some long_name) 1 2048 0 5 long_once env_ok2) = True
   \<and> active (tasks long_twice 0) \<and> active (tasks long_twice 1)
   \<and> name (tasks long_twice 0) = name (tasks long_twice 1)
   \<and> cstr (name (tasks long_twice 0)) = take 31 long_name
   \<and> handle (tasks long_twice 0) = 12288 \<and> handle (tasks long_twice 1) = 16384"
proof -
  have first: "fst (Scheduler_createTask (Some long_name) 1 2048 0 5 scheduler_0 env_ok) = True"
    by (rule scheduler_0_create(1)) (simp_all add: env_ok_facts)
  have ok1: "name_buffers_ok long_once"
    unfolding long_once_def by (rule name_buffers_ok_createTask [OF scheduler_0_ok])
  have "31 < length (cstr long_name)"
    by (simp add: cstr_long_name length_long_name)
  from long_name_not_active [OF ok1 this]
  have unseen: "findTaskByName long_once long_name < 0"
    by (simp add: findTaskByName_none_iff)
  have slot: "findFreeTaskSlot long_once = 1"
    using findFreeTaskSlot_eqI [of 1 long_once]
    by (simp add: MAX_TASKS_def) (simp add: long_once_eq scheduler_0_eq)
  have pre: "(1 :: 32 word) \<noteq> 0" "schedulerMutex long_once \<noteq> 0"
    "semTake env_ok2 (schedulerMutex long_once)" "findTaskByName long_once long_name < 0"
    "\<not> findFreeTaskSlot long_once < 0" "xTaskCreate_ret env_ok2 = Some 16384"
    using unseen by (simp_all add: slot env_ok_facts) (simp add: long_once_eq scheduler_0_eq)
  have second: "fst (Scheduler_createTask (Some long_name) 1 2048 0 5 long_once env_ok2) = True"
    by (rule createTask_created(1) [OF pre])
  have twice: "long_twice =
         long_once\<lparr>tasks := (tasks long_once)(1 :=
               (tasks long_once 1)
                 \<lparr>handle := 16384,
                  name := strncpy (name (tasks long_once 1)) long_name 31,
                  stackSize := 2048, priority := 5, active := True, state := eReady\<rparr>),
            taskCount := taskCount long_once + 1\<rparr>"
    unfolding long_twice_def createTask_created(2) [OF pre] slot by simp
  have names: "name (tasks long_twice 0) = strncpy (memset_0 32) long_name 31"
    "name (tasks long_twice 1) = strncpy (memset_0 32) long_name 31"
    by (simp_all add: twice long_once_eq scheduler_0_eq)
  have "cstr (name (tasks long_twice 0)) = take 31 long_name"
    by (simp add: names cstr_stored cstr_long_name)
  moreover have "active (tasks long_twice 0) \<and> active (tasks long_twice 1)
    \<and> handle (tasks long_twice 0) = 12288 \<and> handle (tasks long_twice 1) = 16384"
    by (simp add: twice long_once_eq)
  ultimately show ?thesis
    using first second names by simp
qed

section \<open>Claims about the kernel facade\<close>

lemma allocate_takes_own_lock:
  "SemTake h t \<in> set (snd (snd (MemoryManager_allocate sz tg m e))) \<Longrightarrow> h = memoryMutex m"
  unfolding MemoryManager_allocate_def Let_def by (auto split: if_splits)

lemma free_takes_own_lock:
  "SemTake h t \<in> set (snd (MemoryManager_free p m e)) \<Longrightarrow> h = memoryMutex m"
  unfolding MemoryManager_free_def Let_def by (auto split: if_splits)

lemma allocate_timeout:
  assumes "sz \<noteq> 0" "memoryMutex m \<noteq> 0" "\<not> semTake e (memoryMutex m)"
  shows "MemoryManager_allocate sz tg m e = (0, m, [SemTake (memoryMutex m) 1000])"
  using assms unfolding MemoryManager_allocate_def Let_def by simp

lemma free_timeout:
  assumes "p \<noteq> 0" "memoryMutex m \<noteq> 0" "\<not> semTake e (memoryMutex m)"
  shows "MemoryManager_free p m e = (m, [SemTake (memoryMutex m) 1000])"
  using assms unfolding MemoryManager_free_def Let_def by simp

lemma same_manager: "memoryManager k = Some m \<Longrightarrow> k\<lparr>memoryManager := Some m\<rparr> = k"
  by (cases k) simp

lemma facade_allocate:
  assumes "initialized k" "memoryManager k = Some m"
  shows "Kernel_allocateMemory sz k e =
           (fst (MemoryManager_allocate sz (Some ''unknown'') m e),
            k\<lparr>memoryManager := Some (fst (snd (MemoryManager_allocate sz (Some ''unknown'') m e)))\<rparr>,
            snd (snd (MemoryManager_allocate sz (Some ''unknown'') m e)))"
  using assms by (simp add: Kernel_allocateMemory_def split_beta)

lemma facade_free:
  assumes "initialized k" "memoryManager k = Some m"
  shows "Kernel_freeMemory p k e =
           (if p \<noteq> 0
            then (k\<lparr>memoryManager := Some (fst (MemoryManager_free p m e))\<rparr>,
                  snd (MemoryManager_free p m e))
            else (k, []))"
  using assms by (simp add: Kernel_freeMemory_def split_beta)

text \<open>
  C7, as the code has it. On an initialized kernel, \<open>createTask\<close>, \<open>deleteTask\<close>,
  \<open>suspendTask\<close> and \<open>resumeTask\<close> first try the lock of the facade with the timeout 1000;
  when it times out they do nothing else: no call reaches the scheduler, the kernel is
  unchanged, and \<open>createTask\<close> and \<open>deleteTask\<close> return false (\<open>suspendTask\<close> and
  \<open>resumeTask\<close> return nothing). \<open>allocateMemory\<close> and \<open>freeMemory\<close> never take the lock of
  the facade: they are the calls of \<open>allocate\<close> and \<open>free\<close> of the memory manager, which
  tries its own lock with the timeout 1000 and, when that times out, fails and changes
  nothing.
\<close>

theorem C7_facade_lock_discipline:
  assumes "initialized k" and "scheduler k = Some s" and "memoryManager k = Some m"
    and "systemMutex k \<noteq> 0"
  shows "(\<exists>rest. snd (snd (Kernel_createTask nm taskFunction stackSz parameters prio k e)) =
                  SemTake (systemMutex k) 1000 # rest)
       \<and> (\<exists>rest. snd (snd (Kernel_deleteTask nm k e)) = SemTake (systemMutex k) 1000 # rest)
       \<and> (\<exists>rest. snd (Kernel_suspendTask nm k e) = SemTake (systemMutex k) 1000 # rest)
       \<and> (\<exists>rest. snd (Kernel_resumeTask nm k e) = SemTake (systemMutex k) 1000 # rest)
       \<and> (\<not> semTake e (systemMutex k) \<longrightarrow>
            Kernel_createTask nm taskFunction stackSz parameters prio k e =
              (False, k, [SemTake (systemMutex k) 1000])
            \<and> Kernel_deleteTask nm k e = (False, k, [SemTake (systemMutex k) 1000])
            \<and> Kernel_suspendTask nm k e = (k, [SemTake (systemMutex k) 1000])
            \<and> Kernel_resumeTask nm k e = (k, [SemTake (systemMutex k) 1000]))
       \<and> Kernel_allocateMemory sz k e =
           (fst (MemoryManager_allocate sz (Some ''unknown'') m e),
            k\<lparr>memoryManager := Some (fst (snd (MemoryManager_allocate sz (Some ''unknown'') m e)))\<rparr>,
            snd (snd (MemoryManager_allocate sz (Some ''unknown'') m e)))
       \<and> Kernel_freeMemory p k e =
           (if p \<noteq> 0
            then (k\<lparr>memoryManager := Some (fst (MemoryManager_free p m e))\<rparr>,
                  snd (MemoryManager_free p m e))
            else (k, []))
       \<and> (systemMutex k \<noteq> memoryMutex m \<longrightarrow>
            (\<forall>t. SemTake (systemMutex k) t \<notin> set (snd (snd (Kernel_allocateMemory sz k e))))
            \<and> (\<forall>t. SemTake (systemMutex k) t \<notin> set (snd (Kernel_freeMemory p k e))))
       \<and> (sz \<noteq> 0 \<and> memoryMutex m \<noteq> 0 \<and> \<not> semTake e (memoryMutex m) \<longrightarrow>
            Kernel_allocateMemory sz k e = (0, k, [SemTake (memoryMutex m) 1000]))
       \<and> (p \<noteq> 0 \<and> memoryMutex m \<noteq> 0 \<and> \<not> semTake e (memoryMutex m) \<longrightarrow>
            Kernel_freeMemory p k e = (k, [SemTake (memoryMutex m) 1000]))"
proof (intro conjI impI)
  show "\<exists>rest. snd (snd (Kernel_createTask nm taskFunction stackSz parameters prio k e)) =
                  SemTake (systemMutex k) 1000 # rest"
    using assms by (simp add: Kernel_createTask_def Kernel_takeMutex_def split_beta)
  show "\<exists>rest. snd (snd (Kernel_deleteTask nm k e)) = SemTake (systemMutex k) 1000 # rest"
    using assms by (simp add: Kernel_deleteTask_def Kernel_takeMutex_def split_beta)
  show "\<exists>rest. snd (Kernel_suspendTask nm k e) = SemTake (systemMutex k) 1000 # rest"
    using assms by (simp add: Kernel_suspendTask_def Kernel_takeMutex_def split_beta)
  show "\<exists>rest. snd (Kernel_resumeTask nm k e) = SemTake (systemMutex k) 1000 # rest"
    using assms by (simp add: Kernel_resumeTask_def Kernel_takeMutex_def split_beta)
  show alloc: "Kernel_allocateMemory sz k e =
           (fst (MemoryManager_allocate sz (Some ''unknown'') m e),
            k\<lparr>memoryManager := Some (fst (snd (MemoryManager_allocate sz (Some ''unknown'') m e)))\<rparr>,
            snd (snd (MemoryManager_allocate sz (Some ''unknown'') m e)))"
    by (rule facade_allocate [OF assms(1,3)])
  show free: "Kernel_freeMemory p k e =
           (if p \<noteq> 0
            then (k\<lparr>memoryManager := Some (fst (MemoryManager_free p m e))\<rparr>,
                  snd (MemoryManager_free p m e))
            else (k, []))"
    by (rule facade_free [OF assms(1,3)])
  {
    assume timeout: "\<not> semTake e (systemMutex k)"
    show "Kernel_createTask nm taskFunction stackSz parameters prio k e =
              (False, k, [SemTake (systemMutex k) 1000])"
      using assms timeout by (simp add: Kernel_createTask_def Kernel_takeMutex_def)
    show "Kernel_deleteTask nm k e = (False, k, [SemTake (systemMutex k) 1000])"
      using assms timeout by (simp add: Kernel_deleteTask_def Kernel_takeMutex_def)
    show "Kernel_suspendTask nm k e = (k, [SemTake (systemMutex k) 1000])"
      using assms timeout by (simp add: Kernel_suspendTask_def Kernel_takeMutex_def)
    show "Kernel_resumeTask nm k e = (k, [SemTake (systemMutex k) 1000])"
      using assms timeout by (simp add: Kernel_resumeTask_def Kernel_takeMutex_def)
  }
  {
    assume distinct: "systemMutex k \<noteq> memoryMutex m"
    show "\<forall>t. SemTake (systemMutex k) t \<notin> set (snd (snd (Kernel_allocateMemory sz k e)))"
      using distinct allocate_takes_own_lock [of "systemMutex k" _ sz "Some ''unknown''" m e]
      unfolding alloc by auto
    show "\<forall>t. SemTake (systemMutex k) t \<notin> set (snd (Kernel_freeMemory p k e))"
      using distinct free_takes_own_lock [of "systemMutex k" _ p m e]
      unfolding free by auto
  }
  {
    assume "sz \<noteq> 0 \<and> memoryMutex m \<noteq> 0 \<and> \<not> semTake e (memoryMutex m)"
    then have "MemoryManager_allocate sz (Some ''unknown'') m e =
                 (0, m, [SemTake (memoryMutex m) 1000])"
      by (intro allocate_timeout) simp_all
    then show "Kernel_allocateMemory sz k e = (0, k, [SemTake (memoryMutex m) 1000])"
      unfolding alloc by (simp add: same_manager [OF assms(3)])
  }
  {
    assume a: "p \<noteq> 0 \<and> memoryMutex m \<noteq> 0 \<and> \<not> semTake e (memoryMutex m)"
    then have "MemoryManager_free p m e = (m, [SemTake (memoryMutex m) 1000])"
      by (intro free_timeout) simp_all
    then show "Kernel_freeMemory p k e = (k, [SemTake (memoryMutex m) 1000])"
      unfolding free using a by (simp add: same_manager [OF assms(3)])
  }
qed

lemma kernel_0_eq:
  "kernel_0 =
     \<lparr>scheduler = Some scheduler_0, memoryManager = Some (initial_manager 2), systemMutex = 1,
      initialized = True, healthy = True, bootTime = 1000, uptime = 0, totalTasks = 0,
      freeMem = 0, minFreeMem = 0\<rparr>"
  by (simp add: kernel_0_def Kernel_init_def Kernel_ctor_def Let_def
        MemoryManager_init_def Scheduler_init_def scheduler_0_def initial_manager_def)

lemma kernel_0_facts:
  "initialized kernel_0" "scheduler kernel_0 = Some scheduler_0"
  "memoryManager kernel_0 = Some (initial_manager 2)" "systemMutex kernel_0 \<noteq> 0"
  "systemMutex kernel_0 = 1"
  by (simp_all add: kernel_0_eq)

theorem C7_witness:
  "\<not> semTake env_facade_timeout (systemMutex kernel_0)
   \<and> Kernel_createTask (Some ''worker'') 1 2048 0 5 kernel_0 env_facade_timeout =
       (False, kernel_0, [SemTake 1 1000])
   \<and> Kernel_deleteTask (Some ''worker'') kernel_0 env_facade_timeout =
       (False, kernel_0, [SemTake 1 1000])
   \<and> Kernel_suspendTask (Some ''worker'') kernel_0 env_facade_timeout =
       (kernel_0, [SemTake 1 1000])
   \<and> Kernel_resumeTask (Some ''worker'') kernel_0 env_facade_timeout =
       (kernel_0, [SemTake 1 1000])
   \<and> (\<forall>t. SemTake 1 t \<notin> set (snd (snd (Kernel_allocateMemory 8 kernel_0 env_facade_timeout))))
   \<and> (\<forall>t. SemTake 1 t \<notin> set (snd (Kernel_freeMemory 8192 kernel_0 env_facade_timeout)))"
proof -
  have timeout: "\<not> semTake env_facade_timeout (systemMutex kernel_0)"
    by (simp add: kernel_0_facts env_facade_timeout_def)
  have distinct: "systemMutex kernel_0 \<noteq> memoryMutex (initial_manager 2)"
    by (simp add: kernel_0_facts initial_manager_eq)
  note inst = C7_facade_lock_discipline
      [OF kernel_0_facts(1-4), of "Some ''worker''" 1 2048 0 5 env_facade_timeout 8 8192,
       unfolded kernel_0_facts(5)]
  from inst timeout distinct show ?thesis
    unfolding kernel_0_facts(5) by blast
qed

text \<open>
  C7 as stated fails for the two memory operations: with the lock of the facade timing out,
  \<open>allocateMemory(8)\<close> on an initialized kernel never tries that lock, and it allocates and
  returns the pointer.
\<close>

theorem C7_counterexample:
  "initialized kernel_0
   \<and> systemMutex kernel_0 = 1
   \<and> \<not> semTake env_facade_timeout (systemMutex kernel_0)
   \<and> fst (Kernel_allocateMemory 8 kernel_0 env_facade_timeout) = 8192
   \<and> snd (snd (Kernel_allocateMemory 8 kernel_0 env_facade_timeout)) =
       snd (snd (MemoryManager_allocate 8 (Some ''unknown'') (initial_manager 2) env_facade_timeout))
   \<and> (\<forall>t. SemTake 1 t \<notin> set (snd (snd (Kernel_allocateMemory 8 kernel_0 env_facade_timeout))))
   \<and> Malloc 8 \<in> set (snd (snd (Kernel_allocateMemory 8 kernel_0 env_facade_timeout)))"
proof -
  have pre: "(8 :: 32 word) \<noteq> 0" "memoryMutex (initial_manager 2) \<noteq> 0"
    "semTake env_facade_timeout (memoryMutex (initial_manager 2))"
    "\<not> findFreeBlock (initial_manager 2) < 0" "malloc_ret env_facade_timeout \<noteq> 0"
    by (simp_all add: findFreeBlock_initial)
       (simp_all add: initial_manager_eq env_facade_timeout_def)
  have a: "align_size 8 = 8"
    by (simp add: align_size_def MEMORY_ALIGNMENT_def)
  have alloc: "Kernel_allocateMemory 8 kernel_0 env_facade_timeout =
           (fst (MemoryManager_allocate 8 (Some ''unknown'') (initial_manager 2) env_facade_timeout),
            kernel_0\<lparr>memoryManager := Some (fst (snd (MemoryManager_allocate 8 (Some ''unknown'')
               (initial_manager 2) env_facade_timeout)))\<rparr>,
            snd (snd (MemoryManager_allocate 8 (Some ''unknown'') (initial_manager 2)
               env_facade_timeout)))"
    by (rule facade_allocate [OF kernel_0_facts(1,3)])
  have 1: "fst (Kernel_allocateMemory 8 kernel_0 env_facade_timeout) = 8192"
    unfolding alloc using allocate_success(1) [OF pre, of "Some ''unknown''"]
    by (simp add: env_facade_timeout_def)
  have 2: "\<forall>t. SemTake 1 t \<notin> set (snd (snd (Kernel_allocateMemory 8 kernel_0 env_facade_timeout)))"
    unfolding alloc
    using allocate_takes_own_lock [of 1 _ 8 "Some ''unknown''" "initial_manager 2" env_facade_timeout]
    by (auto simp: initial_manager_eq)
  have 3: "Malloc 8 \<in> set (snd (snd (Kernel_allocateMemory 8 kernel_0 env_facade_timeout)))"
    unfolding alloc using allocate_success(3) [OF pre, of "Some ''unknown''"]
    by (simp add: a)
  have 4: "\<not> semTake env_facade_timeout (systemMutex kernel_0)"
    by (simp add: kernel_0_facts env_facade_timeout_def)
  from 1 2 3 4 show ?thesis
    by (simp add: kernel_0_facts alloc)
qed


end
